theory Spec2Isabelle
  imports Complex_Main "HOL-Library.Signed_Division" "HOL-Library.Log_Nat"
begin

section \<open>RBM training via CUDA: a shallow embedding of RBM\_CUDA.CPP\<close>

text \<open>
  The two routines of the source, \<open>rbm_cuda_wt_init\<close> and \<open>rbm_cuda\<close>, orchestrate a
  numerical engine (the \<open>cuda_*\<close> routines), a host random generator
  (\<open>unifrand_fast\<close>) and a keyboard poll (\<open>user_pressed_escape\<close>) that live in other
  files. Modelling conventions:

  \<^item> a C \<open>double\<close> is a \<open>real\<close>: infinities and NaN are not modelled, and rounding
    is modelled only where a statement depends on it, in the update of the chain
    length, whose every operation rounds to the nearest binary64 number (\<open>fl\<close>);
  \<^item> a C \<open>int\<close> that counts or indexes (\<open>nc\<close>, \<open>n_inputs\<close>, \<open>nhid\<close>, \<open>n_batches\<close>,
    \<open>max_epochs\<close>, loop indices) is a \<open>nat\<close>; the other \<open>int\<close>s are \<open>int\<close>, and the
    arithmetic of the random stream, where 32-bit overflow matters, has the
    wrap-around written out;
  \<^item> the outside world is an abstract state \<open>'w\<close> threaded through every external
    call; the external routines are the fields of the record \<open>engine\<close>;
  \<^item> the local variables and the caller's buffers are the fields of the record
    \<open>vars\<close>; a local that the source may read before any assignment (\<open>k\<close>,
    \<open>most_recent_correct_error\<close>) is an \<open>option\<close>, \<open>None\<close> while unassigned;
  \<^item> \<open>audit\<close>, \<open>cudalog\<close>, the \<open>CudaTimers\<close> counters and the \<open>smoothed_*\<close>
    variables only feed the log and are left out.
\<close>

subsection \<open>Deterministic linear-congruential stream\<close>

definition IA :: int where "IA = 16807"
definition IM :: int where "IM = 2147483647"
definition IQ :: int where "IQ = 127773"
definition IR :: int where "IR = 2836"

text \<open>The value a 32-bit two's complement \<open>int\<close> holds after an operation whose
  mathematical result is \<open>x\<close>.\<close>

definition wrap32 :: "int \<Rightarrow> int" where
  "wrap32 x = (x + 2147483648) mod 4294967296 - 2147483648"

text \<open>
  \<^verbatim>\<open>k = randnum / IQ ;\<close>
  \<^verbatim>\<open>randnum = IA * (randnum - k * IQ) - IR * k ;\<close>
  \<^verbatim>\<open>if (randnum < 0) randnum += IM ;\<close>
  The result is the pair \<open>(k, randnum)\<close>. C's \<open>/\<close> truncates towards zero (\<open>sdiv\<close>).
\<close>

definition lcg_advance :: "int \<Rightarrow> int \<times> int" where
  "lcg_advance randnum =
     (let k = randnum sdiv IQ;
          randnum = wrap32 (wrap32 (IA * wrap32 (randnum - wrap32 (k * IQ))) - wrap32 (IR * k));
          randnum = (if randnum < 0 then wrap32 (randnum + IM) else randnum)
      in (k, randnum))"

text \<open>The state of the stream after \<open>n\<close> advances from the seed \<open>randnum = 1\<close>.\<close>

fun lcg_stream :: "nat \<Rightarrow> int" where
  "lcg_stream 0 = 1"
| "lcg_stream (Suc n) = snd (lcg_advance (lcg_stream n))"

subsection \<open>Rounding to double precision\<close>

text \<open>Rounding to the nearest integer, ties to the even one.\<close>

definition round_even :: "real \<Rightarrow> int" where
  "round_even x =
     (let f = \<lfloor>x\<rfloor>; d = x - of_int f
      in if d < 1 / 2 then f else if 1 / 2 < d then f + 1 else if even f then f else f + 1)"

text \<open>The binary exponent of \<open>x \<noteq> 0\<close>: the \<open>e\<close> with \<open>2 ^ e \<le> \<bar>x\<bar> < 2 ^ (e + 1)\<close>.\<close>

definition bexp :: "real \<Rightarrow> int" where
  "bexp x = (if 1 \<le> \<bar>x\<bar> then bitlen \<lfloor>\<bar>x\<bar>\<rfloor> - 1 else - bitlen (\<lceil>1 / \<bar>x\<bar>\<rceil> - 1))"

text \<open>The result of an IEEE 754 binary64 operation whose exact result is \<open>x\<close>, in the
  default rounding mode: the nearest number with a significand of 53 bits, ties to the
  even significand. The exponent range is not bounded: overflow and subnormal numbers
  are not modelled.\<close>

definition fl :: "real \<Rightarrow> real" where
  "fl x = (if x = 0 then 0
           else let e = bexp x - 52 in of_int (round_even (x / 2 powi e)) * 2 powi e)"

text \<open>
  \<^verbatim>\<open>chain_length = (1.0 - n_chain_rate) * chain_length + n_chain_rate * n_chain_end ;\<close>
  The conversion of the \<open>int\<close> \<open>n_chain_end\<close> to \<open>double\<close> is exact; the subtraction, the
  two products and the sum round.
\<close>

definition chain_update :: "real \<Rightarrow> int \<Rightarrow> real \<Rightarrow> real" where
  "chain_update n_chain_rate n_chain_end chain_length =
     fl (fl (fl (1 - n_chain_rate) * chain_length) + fl (n_chain_rate * real_of_int n_chain_end))"

subsection \<open>Data statistics\<close>

text \<open>The mean of each input, as \<open>rbm_cuda_wt_init\<close> computes it (with the row pointer
  \<open>dptr = data + i * ncols\<close> kept as an offset into \<open>data\<close>).\<close>

definition find_mean_wt_init :: "nat \<Rightarrow> nat \<Rightarrow> nat \<Rightarrow> real list \<Rightarrow> real list \<Rightarrow> real list" where
  "find_mean_wt_init nc n_inputs ncols data data_mean =
     (let data_mean = fold (\<lambda>ivis dm. dm[ivis := 0]) [0..<n_inputs] data_mean;
          data_mean = fold (\<lambda>i dm.
                        let dptr = i * ncols
                        in fold (\<lambda>ivis dm. dm[ivis := dm ! ivis + data ! (dptr + ivis)]) [0..<n_inputs] dm)
                      [0..<nc] data_mean
      in fold (\<lambda>ivis dm.
                 let dm = dm[ivis := dm ! ivis / real nc];
                     dm = (if dm ! ivis < 1 / 10 ^ 8 then dm[ivis := 1 / 10 ^ 8] else dm)
                 in (if dm ! ivis > 1 - 1 / 10 ^ 8 then dm[ivis := 1 - 1 / 10 ^ 8] else dm))
           [0..<n_inputs] data_mean)"

text \<open>The same computation as \<open>rbm_cuda\<close> writes it.\<close>

definition find_mean_rbm :: "nat \<Rightarrow> nat \<Rightarrow> nat \<Rightarrow> real list \<Rightarrow> real list \<Rightarrow> real list" where
  "find_mean_rbm nc n_inputs ncols data data_mean =
     (let data_mean = fold (\<lambda>ivis dm. dm[ivis := 0]) [0..<n_inputs] data_mean;
          data_mean = fold (\<lambda>icase dm.
                        fold (\<lambda>ivis dm. dm[ivis := dm ! ivis + data ! (icase * ncols + ivis)]) [0..<n_inputs] dm)
                      [0..<nc] data_mean
      in fold (\<lambda>ivis dm.
                 let dm = dm[ivis := dm ! ivis / real nc];
                     dm = (if dm ! ivis < 1 / 10 ^ 8 then dm[ivis := 1 / 10 ^ 8] else dm)
                 in (if dm ! ivis > 1 - 1 / 10 ^ 8 then dm[ivis := 1 - 1 / 10 ^ 8] else dm))
           [0..<n_inputs] data_mean)"

subsection \<open>Batch partitioner\<close>

text \<open>The size of batch \<open>ibatch\<close> when \<open>n_done\<close> cases are done: cases left to do
  over batches left to do.\<close>

definition batch_size :: "nat \<Rightarrow> nat \<Rightarrow> nat \<Rightarrow> nat \<Rightarrow> nat" where
  "batch_size nc n_batches n_done ibatch = (nc - n_done) div (n_batches - ibatch)"

text \<open>The loop that finds \<open>max_batch\<close>; its state is \<open>(n_done, max_batch)\<close>.\<close>

definition find_max_batch :: "nat \<Rightarrow> nat \<Rightarrow> nat" where
  "find_max_batch nc n_batches =
     snd (fold (\<lambda>ibatch (n_done, max_batch).
                  let n_in_batch = batch_size nc n_batches n_done ibatch;
                      max_batch = (if n_in_batch > max_batch then n_in_batch else max_batch)
                  in (n_done + n_in_batch, max_batch))
          [0..<n_batches] (0, 0))"

subsection \<open>The external routines\<close>

text \<open>
  Every routine takes the world and returns the new one. The \<open>cuda_*\<close> routines and
  \<open>rbm_cuda_init\<close> return the status \<open>ret_val\<close> first (zero is success); the three
  \<open>ERROR_*\<close> codes are constants of a header that is not part of the source.
  \<open>cuda_recon_error\<close> fills \<open>err_vec\<close>, \<open>cuda_max_inc_w\<close> and \<open>cuda_len_dot\<close> write
  their results through pointers, \<open>cuda_params_from_device\<close> fills
  \<open>in_bias\<close>, \<open>hid_bias\<close> and \<open>w\<close>. \<open>escape_key_pressed\<close> is a global flag, which
  any external routine may change. Pointer arguments that the source passes as
  \<open>NULL\<close> and the message buffer are left out.
\<close>

record 'w engine =
  ERROR_INSUFFICIENT_MEMORY :: int
  ERROR_CUDA_MEMORY :: int
  ERROR_CUDA_ERROR :: int
  rbm_cuda_init :: "nat \<Rightarrow> nat \<Rightarrow> nat \<Rightarrow> nat \<Rightarrow> int \<Rightarrow> int \<Rightarrow> nat \<Rightarrow> real list \<Rightarrow> real list
                    \<Rightarrow> real list \<Rightarrow> real list \<Rightarrow> real list \<Rightarrow> 'w \<Rightarrow> int \<times> 'w"
  rbm_cuda_cleanup :: "'w \<Rightarrow> 'w"
  cuda_shuffle_to_device :: "nat \<Rightarrow> int list \<Rightarrow> 'w \<Rightarrow> int \<times> 'w"
  cuda_params_to_device :: "nat \<Rightarrow> nat \<Rightarrow> real list \<Rightarrow> real list \<Rightarrow> real list \<Rightarrow> 'w \<Rightarrow> int \<times> 'w"
  cuda_params_from_device :: "nat \<Rightarrow> nat \<Rightarrow> 'w \<Rightarrow> int \<times> (real list \<times> real list \<times> real list) \<times> 'w"
  cuda_fetch_vis1 :: "nat \<Rightarrow> nat \<Rightarrow> nat \<Rightarrow> int option \<Rightarrow> 'w \<Rightarrow> int \<times> 'w"
  cuda_vis_to_hid :: "nat \<Rightarrow> nat \<Rightarrow> 'w \<Rightarrow> int \<times> 'w"
  cuda_hid_to_vis_direct :: "nat \<Rightarrow> nat \<Rightarrow> 'w \<Rightarrow> int \<times> 'w"
  cuda_sample_hidden2 :: "nat \<Rightarrow> nat \<Rightarrow> int \<Rightarrow> 'w \<Rightarrow> int \<times> 'w"
  cuda_hid_to_vis :: "nat \<Rightarrow> nat \<Rightarrow> int \<Rightarrow> 'w \<Rightarrow> int \<times> 'w"
  cuda_vis2_to_hid2 :: "nat \<Rightarrow> nat \<Rightarrow> 'w \<Rightarrow> int \<times> 'w"
  cuda_recon_error :: "nat \<Rightarrow> nat \<Rightarrow> real list \<Rightarrow> 'w \<Rightarrow> int \<times> real list \<times> 'w"
  cuda_update_in_bias :: "nat \<Rightarrow> nat \<Rightarrow> real \<Rightarrow> real \<Rightarrow> 'w \<Rightarrow> int \<times> 'w"
  cuda_update_hid_bias :: "nat \<Rightarrow> nat \<Rightarrow> real \<Rightarrow> real \<Rightarrow> int \<Rightarrow> real \<Rightarrow> real \<Rightarrow> 'w \<Rightarrow> int \<times> 'w"
  cuda_update_weights :: "nat \<Rightarrow> nat \<Rightarrow> nat \<Rightarrow> real \<Rightarrow> real \<Rightarrow> real \<Rightarrow> real \<Rightarrow> real \<Rightarrow> 'w \<Rightarrow> int \<times> 'w"
  cuda_transpose :: "nat \<Rightarrow> nat \<Rightarrow> 'w \<Rightarrow> int \<times> 'w"
  cuda_max_inc_w :: "nat \<Rightarrow> int \<Rightarrow> 'w \<Rightarrow> int \<times> real \<times> 'w"
  cuda_len_dot :: "nat \<Rightarrow> 'w \<Rightarrow> int \<times> real \<times> real \<times> 'w"
  unifrand_fast :: "'w \<Rightarrow> real \<times> 'w"
  user_pressed_escape :: "'w \<Rightarrow> int \<times> 'w"
  escape_key_pressed :: "'w \<Rightarrow> int"
  set_escape_key_pressed :: "int \<Rightarrow> 'w \<Rightarrow> 'w"

subsection \<open>Arguments and variables\<close>

text \<open>The arguments that the two routines only read. \<open>learning_rate\<close>, which
  \<open>rbm_cuda\<close> receives by value and then adapts, and the arrays are in \<open>vars\<close>.\<close>

record params =
  nc :: nat
  n_inputs :: nat
  ncols :: nat
  data :: "real list"
  nhid :: nat
  n_rand :: nat
  n_batches :: nat
  n_chain_start :: int
  n_chain_end :: int
  n_chain_rate :: real
  mean_field :: int
  greedy_mean_field :: int
  max_epochs :: nat
  max_no_imp :: int
  convergence_crit :: real
  start_momentum :: real
  end_momentum :: real
  weight_pen :: real
  sparsity_penalty :: real
  sparsity_target :: real

record 'w vars =
  w :: "real list"
  in_bias :: "real list"
  hid_bias :: "real list"
  w_best :: "real list"
  in_bias_best :: "real list"
  hid_bias_best :: "real list"
  data_mean :: "real list"
  err_vec :: "real list"
  shuffle_index :: "int list"
  error :: real
  best_err :: real
  n_done :: nat
  istart :: nat
  k :: "int option"
  randnum :: int
  learning_rate :: real
  momentum :: real
  chain_length :: real
  n_no_improvement :: int
  max_inc :: real
  max_weight :: real
  len_prev :: real
  best_crit :: real
  most_recent_correct_error :: "real option"
  world :: 'w

subsection \<open>Control flow\<close>

text \<open>
  The outcome of a loop body: it falls through to the next iteration, leaves the loop
  by \<open>break\<close> (tagged with the test that broke), or leaves the routine by
  \<open>return\<close> with a value.
\<close>

datatype break_at = User_Escape | Small_Gradient | Stalled

datatype 's ctl = Normal 's | Break break_at 's | Return real 's

text \<open>Sequencing: the rest runs only after a normal outcome.\<close>

definition seq :: "'s ctl \<Rightarrow> ('s \<Rightarrow> 's ctl) \<Rightarrow> 's ctl" where
  "seq m f = (case m of Normal s \<Rightarrow> f s | Break b s \<Rightarrow> Break b s | Return r s \<Rightarrow> Return r s)"

text \<open>\<^verbatim>\<open>for (i=0 ; i<n ; i++) body\<close> is \<open>for_loop body [0..<n]\<close>.\<close>

fun for_loop :: "(nat \<Rightarrow> 's \<Rightarrow> 's ctl) \<Rightarrow> nat list \<Rightarrow> 's \<Rightarrow> 's ctl" where
  "for_loop body [] s = Normal s"
| "for_loop body (i # rest) s = seq (body i s) (for_loop body rest)"

text \<open>\<^verbatim>\<open>ret_val = f (...) ; if (ret_val) return -1.0 ;\<close>\<close>

definition call :: "('w \<Rightarrow> int \<times> 'w) \<Rightarrow> 'w vars \<Rightarrow> 'w vars ctl" where
  "call f s = (case f (world s) of (ret_val, wld) \<Rightarrow>
                 if ret_val \<noteq> 0 then Return (- 1) (s\<lparr>world := wld\<rparr>)
                 else Normal (s\<lparr>world := wld\<rparr>))"

text \<open>\<^verbatim>\<open>escape_key_pressed || user_pressed_escape ()\<close>: the poll runs only while the
  flag is clear.\<close>

definition escape_check :: "'w engine \<Rightarrow> 'w \<Rightarrow> bool \<times> 'w" where
  "escape_check E wld =
     (if escape_key_pressed E wld \<noteq> 0 then (True, wld)
      else (case user_pressed_escape E wld of (r, wld') \<Rightarrow> (r \<noteq> 0, wld')))"

text \<open>\<^verbatim>\<open>user_pressed_escape () ; escape_key_pressed = 0 ;\<close>\<close>

definition escape_reset :: "'w engine \<Rightarrow> 'w \<Rightarrow> 'w" where
  "escape_reset E wld = set_escape_key_pressed E 0 (snd (user_pressed_escape E wld))"

text \<open>The conversion \<open>(int) x\<close> of a \<open>double\<close> truncates towards zero.\<close>

definition c_trunc :: "real \<Rightarrow> int" where
  "c_trunc x = (if 0 \<le> x then \<lfloor>x\<rfloor> else \<lceil>x\<rceil>)"

text \<open>\<^verbatim>\<open>for (ivis=0 ; ivis<n_inputs ; ivis++) error += err_vec[ivis] ;\<close>\<close>

definition cumulate_error :: "nat \<Rightarrow> 'w vars \<Rightarrow> 'w vars" where
  "cumulate_error n s = fold (\<lambda>ivis s. s\<lparr>error := error s + err_vec s ! ivis\<rparr>) [0..<n] s"

text \<open>\<^verbatim>\<open>for (icase=0 ; icase<nc ; icase++) shuffle_index[icase] = icase ;\<close>\<close>

definition init_shuffle_index :: "nat \<Rightarrow> int list \<Rightarrow> int list" where
  "init_shuffle_index n si = fold (\<lambda>icase si. si[icase := int icase]) [0..<n] si"

subsection \<open>rbm\_cuda\_wt\_init: the best of \<open>n_rand\<close> random weight sets\<close>

text \<open>The weights of hidden neuron \<open>ihid\<close> and its bias; the state of the inner loop
  is the running \<open>sum\<close> (here \<open>sm\<close>) and the variables.\<close>

definition gen_hid_weights :: "'w engine \<Rightarrow> params \<Rightarrow> real \<Rightarrow> nat \<Rightarrow> 'w vars \<Rightarrow> 'w vars" where
  "gen_hid_weights E P diff ihid s =
     (case fold (\<lambda>ivis (sm, s).
                   case unifrand_fast E (world s) of (u, wld) \<Rightarrow>
                     let wt = diff * (u - 0.5)
                     in (sm + data_mean s ! ivis * wt,
                         s\<lparr>w := (w s)[ihid * n_inputs P + ivis := wt], world := wld\<rparr>))
             [0..<n_inputs P] (0, s)
      of (sm, s) \<Rightarrow> s\<lparr>hid_bias := (hid_bias s)[ihid := - sm]\<rparr>)"

text \<open>The bias of visible neuron \<open>ivis\<close>.\<close>

definition center_visible :: "params \<Rightarrow> nat \<Rightarrow> 'w vars \<Rightarrow> 'w vars" where
  "center_visible P ivis s =
     (let sm = fold (\<lambda>ihid sm. sm + w s ! (ihid * n_inputs P + ivis)) [0..<nhid P] 0
      in s\<lparr>in_bias := (in_bias s)
                [ivis := ln (data_mean s ! ivis / (1 - data_mean s ! ivis)) - 0.5 * sm]\<rparr>)"

text \<open>Generate the trial weight matrix and bias vectors.\<close>

definition trial_weights :: "'w engine \<Rightarrow> params \<Rightarrow> 'w vars \<Rightarrow> 'w vars" where
  "trial_weights E P s =
     (case unifrand_fast E (world s) of (u, wld) \<Rightarrow>
        let diff = 4 * u / sqrt (sqrt (real (n_inputs P) * real (nhid P)));
            s = fold (gen_hid_weights E P diff) [0..<nhid P] (s\<lparr>world := wld\<rparr>)
        in fold (center_visible P) [0..<n_inputs P] s)"

text \<open>One batch of the evaluation of a trial. The status of \<open>cuda_recon_error\<close> is
  stored in \<open>ret_val\<close> and not tested.\<close>

definition wt_batch :: "'w engine \<Rightarrow> params \<Rightarrow> nat \<Rightarrow> 'w vars \<Rightarrow> 'w vars ctl" where
  "wt_batch E P ibatch s =
     (let n_in_batch = batch_size (nc P) (n_batches P) (n_done s) ibatch;
          istop = istart s + n_in_batch
      in seq (call (cuda_fetch_vis1 E (istart s) istop (n_inputs P) (Some 1)) s) (\<lambda>s.
         seq (call (cuda_vis_to_hid E n_in_batch (nhid P)) s) (\<lambda>s.
         seq (call (cuda_hid_to_vis_direct E n_in_batch (n_inputs P)) s) (\<lambda>s.
         case cuda_recon_error E (n_inputs P) n_in_batch (err_vec s) (world s) of
           (ret_val, ev, wld) \<Rightarrow>
             let s = cumulate_error (n_inputs P) (s\<lparr>err_vec := ev, world := wld\<rparr>)
             in Normal (s\<lparr>istart := istop, n_done := n_done s + n_in_batch\<rparr>)))))"

text \<open>If we just improved, save the best-so-far parameters.\<close>

definition save_best :: "params \<Rightarrow> 'w vars \<Rightarrow> 'w vars" where
  "save_best P s =
     (if error s < best_err s then
        let s = s\<lparr>best_err := error s\<rparr>;
            s = fold (\<lambda>ihid s.
                  let s = s\<lparr>hid_bias_best := (hid_bias_best s)[ihid := hid_bias s ! ihid]\<rparr>
                  in fold (\<lambda>ivis s. s\<lparr>w_best := (w_best s)
                             [ihid * n_inputs P + ivis := w s ! (ihid * n_inputs P + ivis)]\<rparr>)
                       [0..<n_inputs P] s)
                [0..<nhid P] s
        in fold (\<lambda>ivis s. s\<lparr>in_bias_best := (in_bias_best s)[ivis := in_bias s ! ivis]\<rparr>)
             [0..<n_inputs P] s
      else s)"

text \<open>Copy the best parameters (in \<open>?_best\<close>) into the weights.\<close>

definition copy_best :: "params \<Rightarrow> 'w vars \<Rightarrow> 'w vars" where
  "copy_best P s =
     (let s = fold (\<lambda>ihid s.
                let s = s\<lparr>hid_bias := (hid_bias s)[ihid := hid_bias_best s ! ihid]\<rparr>
                in fold (\<lambda>ivis s. s\<lparr>w := (w s)
                           [ihid * n_inputs P + ivis := w_best s ! (ihid * n_inputs P + ivis)]\<rparr>)
                     [0..<n_inputs P] s)
              [0..<nhid P] s
      in fold (\<lambda>ivis s. s\<lparr>in_bias := (in_bias s)[ivis := in_bias_best s ! ivis]\<rparr>)
           [0..<n_inputs P] s)"

text \<open>The first part of the body of the main loop, for random try \<open>irand\<close>: generate
  the trial parameters, copy them to the device and cumulate the reconstruction error
  over the batches.\<close>

definition wt_evaluate :: "'w engine \<Rightarrow> params \<Rightarrow> nat \<Rightarrow> 'w vars \<Rightarrow> 'w vars ctl" where
  "wt_evaluate E P irand s =
     (let s = s\<lparr>error := 0\<rparr>
      in seq (if irand = 0 then call (cuda_shuffle_to_device E (nc P) (shuffle_index s)) s
              else Normal s) (\<lambda>s.
         let s = trial_weights E P s
         in seq (call (cuda_params_to_device E (n_inputs P) (nhid P) (in_bias s) (hid_bias s) (w s)) s) (\<lambda>s.
            for_loop (wt_batch E P) [0..<n_batches P] (s\<lparr>n_done := 0, istart := 0\<rparr>))))"

text \<open>The body of the main loop: after the evaluation, keep the parameters if they are
  the best so far, and test for ESCape.\<close>

definition wt_trial :: "'w engine \<Rightarrow> params \<Rightarrow> nat \<Rightarrow> 'w vars \<Rightarrow> 'w vars ctl" where
  "wt_trial E P irand s =
     seq (wt_evaluate E P irand s) (\<lambda>s.
       let s = save_best P s
       in case escape_check E (world s) of (esc, wld) \<Rightarrow>
            if esc then Break User_Escape (s\<lparr>world := escape_reset E wld\<rparr>)
            else Normal (s\<lparr>world := wld\<rparr>))"

text \<open>Everything before the main loop: \<open>Return\<close> when \<open>rbm_cuda_init\<close> reports one
  of the three errors, else the variables on entry to the loop.\<close>

definition wt_setup :: "'w engine \<Rightarrow> params \<Rightarrow> 'w vars \<Rightarrow> 'w vars ctl" where
  "wt_setup E P s =
     (let s = s\<lparr>world := escape_reset E (world s)\<rparr>;
          s = s\<lparr>data_mean := find_mean_wt_init (nc P) (n_inputs P) (ncols P) (data P) (data_mean s)\<rparr>;
          max_batch = find_max_batch (nc P) (n_batches P)
      in case rbm_cuda_init E (nc P) (ncols P) (n_inputs P) (nhid P) 1 1 max_batch (data P)
                (data_mean s) (in_bias s) (hid_bias s) (w s) (world s) of
           (ret_val, wld) \<Rightarrow>
             let s = s\<lparr>world := wld\<rparr>
             in if ret_val = ERROR_INSUFFICIENT_MEMORY E then Return (- 1) s
                else if ret_val = ERROR_CUDA_MEMORY E then Return (- 1) s
                else if ret_val = ERROR_CUDA_ERROR E then Return (- 1) s
                else Normal (s\<lparr>shuffle_index := init_shuffle_index (nc P) (shuffle_index s),
                               best_err := 10 ^ 40\<rparr>))"

text \<open>Everything after the main loop.\<close>

definition wt_finish :: "'w engine \<Rightarrow> params \<Rightarrow> 'w vars \<Rightarrow> real \<times> 'w vars" where
  "wt_finish E P s =
     (let s = copy_best P s;
          s = s\<lparr>world := rbm_cuda_cleanup E (world s)\<rparr>
      in (best_err s / real_of_int (wrap32 (int (nc P) * int (n_inputs P))), s))"

definition rbm_cuda_wt_init :: "'w engine \<Rightarrow> params \<Rightarrow> 'w vars \<Rightarrow> real \<times> 'w vars" where
  "rbm_cuda_wt_init E P s =
     (case seq (wt_setup E P s) (for_loop (wt_trial E P) [0..<n_rand P]) of
        Return r s \<Rightarrow> (r, s)
      | Normal s \<Rightarrow> wt_finish E P s
      | Break b s \<Rightarrow> wt_finish E P s)"

subsection \<open>rbm\_cuda: the training loop\<close>

text \<open>One advance of the stream: it assigns \<open>k\<close> and \<open>randnum\<close>.\<close>

definition advance :: "'w vars \<Rightarrow> 'w vars" where
  "advance s = (case lcg_advance (randnum s) of (q, r) \<Rightarrow> s\<lparr>k := Some q, randnum := r\<rparr>)"

text \<open>
  The shuffle, \<open>i\<close> being the number remaining to be shuffled:
  \<^verbatim>\<open>while (i > 1) {\<close>
  \<^verbatim>\<open>   j = (int) (unifrand_fast () * i) ;\<close>
  \<^verbatim>\<open>   if (j >= i) j = i - 1 ;\<close>
  \<^verbatim>\<open>   k = shuffle_index[--i] ;\<close>
  \<^verbatim>\<open>   shuffle_index[i] = shuffle_index[j] ;\<close>
  \<^verbatim>\<open>   shuffle_index[j] = k ; }\<close>
  It uses \<open>k\<close>, the variable of the stream's quotient, as its temporary.
  (\<open>unifrand_fast\<close> is taken not to be negative, so that \<open>j\<close> is an index.)
\<close>

function shuffle :: "'w engine \<Rightarrow> nat \<Rightarrow> 'w vars \<Rightarrow> 'w vars" where
  "shuffle E i s =
     (if i > 1 then
        (case unifrand_fast E (world s) of (u, wld) \<Rightarrow>
           let j = c_trunc (u * real i);
               j = (if j \<ge> int i then int i - 1 else j);
               i = i - 1;
               tmp = shuffle_index s ! i;
               si = (shuffle_index s)[i := shuffle_index s ! nat j];
               si = si[nat j := tmp]
           in shuffle E i (s\<lparr>k := Some tmp, shuffle_index := si, world := wld\<rparr>))
      else s)"
  by pat_completeness auto
termination
  by (relation "measure (\<lambda>(E, i, s). i)") auto

declare shuffle.simps [simp del]

text \<open>One step of the Markov chain.\<close>

definition chain_step :: "'w engine \<Rightarrow> params \<Rightarrow> nat \<Rightarrow> nat \<Rightarrow> 'w vars \<Rightarrow> 'w vars ctl" where
  "chain_step E P n_in_batch ichain s =
     (let s = advance s
      in seq (call (cuda_sample_hidden2 E n_in_batch (nhid P) (randnum s)) s) (\<lambda>s.
         let s = advance s
         in seq (call (cuda_hid_to_vis E n_in_batch (n_inputs P) (randnum s)) s) (\<lambda>s.
            seq (if ichain = 0 then
                   (case cuda_recon_error E (n_inputs P) n_in_batch (err_vec s) (world s) of
                      (ret_val, ev, wld) \<Rightarrow>
                        if ret_val \<noteq> 0 then Return (- 1) (s\<lparr>err_vec := ev, world := wld\<rparr>)
                        else Normal (s\<lparr>err_vec := ev, world := wld\<rparr>))
                 else Normal s) (\<lambda>s.
            call (cuda_vis2_to_hid2 E n_in_batch (nhid P)) s))))"

text \<open>The dynamic update of the learning rate and of the momentum from \<open>dot\<close>, the
  cosine of the angle between this gradient and the previous one.\<close>

definition adapt :: "real \<Rightarrow> 'w vars \<Rightarrow> 'w vars" where
  "adapt dot s =
     (let s = (if dot > 0.5 then s\<lparr>learning_rate := learning_rate s * 1.2\<rparr>
               else if dot > 0.3 then s\<lparr>learning_rate := learning_rate s * 1.1\<rparr>
               else if dot < - 0.5 then s\<lparr>learning_rate := learning_rate s / 1.2\<rparr>
               else if dot < - 0.3 then s\<lparr>learning_rate := learning_rate s / 1.1\<rparr>
               else s);
          s = (if learning_rate s > 1 then s\<lparr>learning_rate := 1\<rparr> else s);
          s = (if learning_rate s < 0.001 then s\<lparr>learning_rate := 0.001\<rparr> else s)
      in (if \<bar>dot\<bar> > 0.3 then s\<lparr>momentum := momentum s / 1.5\<rparr> else s))"

text \<open>The gradient lengths and dot product: the very first batch only records the
  length; every other batch adapts.\<close>

definition gradient_step :: "'w engine \<Rightarrow> params \<Rightarrow> nat \<Rightarrow> nat \<Rightarrow> 'w vars \<Rightarrow> 'w vars ctl" where
  "gradient_step E P i_epoch ibatch s =
     (case cuda_len_dot E (n_inputs P * nhid P) (world s) of
        (ret_val, len, dot, wld) \<Rightarrow>
          if i_epoch = 0 \<and> ibatch = 0 then
            (if ret_val \<noteq> 0 then Return (- 1) (s\<lparr>len_prev := len, world := wld\<rparr>)
             else Normal (s\<lparr>len_prev := len, world := wld\<rparr>))
          else
            (if ret_val \<noteq> 0 then Return (- 1) (s\<lparr>world := wld\<rparr>)
             else let len_this = len;
                      dot = dot / sqrt (len_this * len_prev s)
                  in Normal (adapt dot (s\<lparr>len_prev := len_this, world := wld\<rparr>))))"

text \<open>\<^verbatim>\<open>i_epoch  &&  (escape_key_pressed  ||  user_pressed_escape ())\<close>\<close>

definition epoch_escape_check :: "'w engine \<Rightarrow> nat \<Rightarrow> 'w \<Rightarrow> bool \<times> 'w" where
  "epoch_escape_check E i_epoch wld = (if i_epoch \<noteq> 0 then escape_check E wld else (False, wld))"

text \<open>The stream is advanced before the fetch of a batch unless \<open>greedy_mean_field\<close>
  is set:
  \<^verbatim>\<open>if (! greedy_mean_field) { k = randnum / IQ ; ... }\<close>\<close>

definition pre_fetch :: "params \<Rightarrow> 'w vars \<Rightarrow> 'w vars" where
  "pre_fetch P s = (if greedy_mean_field P = 0 then advance s else s)"

text \<open>The first part of the body of the batch loop: fetch the batch, run the Markov
  chain, update the parameters, cumulate the error and keep track of the largest
  increment. \<open>cuda_fetch_vis1\<close> is passed \<open>k\<close> as \<open>pre_fetch\<close> leaves it.\<close>

definition batch_update :: "'w engine \<Rightarrow> params \<Rightarrow> nat \<Rightarrow> nat \<Rightarrow> 'w vars \<Rightarrow> 'w vars ctl" where
  "batch_update E P n_in_batch istop s =
     (let s = pre_fetch P s
      in seq (call (cuda_fetch_vis1 E (istart s) istop (n_inputs P) (k s)) s) (\<lambda>s.
         seq (call (cuda_vis_to_hid E n_in_batch (nhid P)) s) (\<lambda>s.
         seq (for_loop (chain_step E P n_in_batch) [0..<nat (c_trunc (chain_length s + 0.5))] s) (\<lambda>s.
         seq (call (cuda_update_in_bias E n_in_batch (n_inputs P) (learning_rate s) (momentum s)) s) (\<lambda>s.
         let s = advance s
         in seq (call (cuda_update_hid_bias E n_in_batch (nhid P) (learning_rate s) (momentum s)
                         (randnum s) (sparsity_penalty P) (sparsity_target P)) s) (\<lambda>s.
            seq (call (cuda_update_weights E n_in_batch (n_inputs P) (nhid P) (learning_rate s)
                         (momentum s) (weight_pen P) (sparsity_penalty P) (sparsity_target P)) s) (\<lambda>s.
            seq (call (cuda_transpose E (n_inputs P) (nhid P)) s) (\<lambda>s.
            let s = cumulate_error (n_inputs P) s
            in case cuda_max_inc_w E (n_inputs P * nhid P) 1 (world s) of
                 (ret_val, dtemp, wld) \<Rightarrow>
                   if ret_val \<noteq> 0 then Return (- 1) (s\<lparr>world := wld\<rparr>)
                   else
                     let s = s\<lparr>world := wld\<rparr>
                     in Normal (if dtemp > max_inc s then s\<lparr>max_inc := dtemp\<rparr> else s)))))))))"

text \<open>The body of the batch loop: after the update, the test for ESCape (not in the
  first epoch), which leaves the batch loop, then the gradient step.\<close>

definition rbm_batch :: "'w engine \<Rightarrow> params \<Rightarrow> nat \<Rightarrow> nat \<Rightarrow> 'w vars \<Rightarrow> 'w vars ctl" where
  "rbm_batch E P i_epoch ibatch s =
     (let n_in_batch = batch_size (nc P) (n_batches P) (n_done s) ibatch;
          istop = istart s + n_in_batch
      in seq (batch_update E P n_in_batch istop s) (\<lambda>s.
         case epoch_escape_check E i_epoch (world s) of
           (esc, wld) \<Rightarrow>
             if esc then Break User_Escape (s\<lparr>world := wld\<rparr>)
             else seq (gradient_step E P i_epoch ibatch (s\<lparr>world := wld\<rparr>)) (\<lambda>s.
                  Normal (s\<lparr>n_done := n_done s + n_in_batch, istart := istop\<rparr>))))"

text \<open>The end of an epoch that goes on to the next one: momentum and chain length
  move towards their end values, and the learning rate is capped when the ratio has
  long failed to improve (prevent wild gyrations when near convergence).\<close>

definition anneal :: "params \<Rightarrow> 'w vars \<Rightarrow> 'w vars" where
  "anneal P s =
     (let s = s\<lparr>momentum := 0.99 * momentum s + 0.01 * end_momentum P\<rparr>;
          s = s\<lparr>chain_length := chain_update (n_chain_rate P) (n_chain_end P) (chain_length s)\<rparr>;
          s = (if n_no_improvement s > 50 \<and> learning_rate s > 0.03
               then s\<lparr>learning_rate := 0.03\<rparr> else s);
          s = (if n_no_improvement s > 100 \<and> learning_rate s > 0.02
               then s\<lparr>learning_rate := 0.02\<rparr> else s);
          s = (if n_no_improvement s > 150 \<and> learning_rate s > 0.01
               then s\<lparr>learning_rate := 0.01\<rparr> else s);
          s = (if n_no_improvement s > 200 \<and> learning_rate s > 0.005
               then s\<lparr>learning_rate := 0.005\<rparr> else s)
      in (if n_no_improvement s > 250 \<and> learning_rate s > 0.002
          then s\<lparr>learning_rate := 0.002\<rparr> else s))"

text \<open>The two tests for convergence, on \<open>max_inc / max_weight\<close>: the largest gradient
  relative to the largest weight is small, or it failed to improve too many times.
  Both leave the epoch loop by \<open>break\<close>, before the annealing.\<close>

definition convergence_tests :: "params \<Rightarrow> nat \<Rightarrow> 'w vars \<Rightarrow> 'w vars ctl" where
  "convergence_tests P i_epoch s =
     (if max_inc s / max_weight s < convergence_crit P then Break Small_Gradient s
      else if i_epoch = 0 \<or> max_inc s / max_weight s < best_crit s then
        Normal (anneal P (s\<lparr>best_crit := max_inc s / max_weight s, n_no_improvement := 0\<rparr>))
      else
        let s = s\<lparr>n_no_improvement := n_no_improvement s + 1\<rparr>
        in if n_no_improvement s > max_no_imp P then Break Stalled s
           else Normal (anneal P s))"

text \<open>All batches of this epoch have ended: the test for ESCape, the error of the
  epoch and the largest weight.\<close>

definition epoch_summary :: "'w engine \<Rightarrow> params \<Rightarrow> nat \<Rightarrow> 'w vars \<Rightarrow> 'w vars ctl" where
  "epoch_summary E P i_epoch s =
     (case epoch_escape_check E i_epoch (world s) of
        (esc, wld) \<Rightarrow>
          if esc then Break User_Escape (s\<lparr>world := escape_reset E wld\<rparr>)
          else
            let s = s\<lparr>world := wld\<rparr>;
                s = s\<lparr>error := error s / real_of_int (wrap32 (int (nc P) * int (n_inputs P)))\<rparr>;
                s = s\<lparr>most_recent_correct_error := Some (error s)\<rparr>;
                s = (if i_epoch = 0 \<or> error s < best_err s then s\<lparr>best_err := error s\<rparr> else s)
            in case cuda_max_inc_w E (n_inputs P * nhid P) 0 (world s) of
                 (ret_val, mw, wld) \<Rightarrow>
                   if ret_val \<noteq> 0 then Return (- 1) (s\<lparr>max_weight := mw, world := wld\<rparr>)
                   else Normal (s\<lparr>max_weight := mw, world := wld\<rparr>))"

text \<open>The start of an epoch: shuffle the data, upload the shuffle index and reset the
  counters of the batch loop.\<close>

definition epoch_begin :: "'w engine \<Rightarrow> params \<Rightarrow> 'w vars \<Rightarrow> 'w vars ctl" where
  "epoch_begin E P s =
     (let s = shuffle E (nc P) s
      in seq (call (cuda_shuffle_to_device E (nc P) (shuffle_index s)) s) (\<lambda>s.
         Normal (s\<lparr>istart := 0, n_done := 0, error := 0, max_inc := 0\<rparr>)))"

text \<open>The batch loop of an epoch, from the shuffle on.\<close>

definition epoch_batches :: "'w engine \<Rightarrow> params \<Rightarrow> nat \<Rightarrow> 'w vars \<Rightarrow> 'w vars ctl" where
  "epoch_batches E P i_epoch s =
     seq (epoch_begin E P s) (for_loop (rbm_batch E P i_epoch) [0..<n_batches P])"

text \<open>An epoch up to the tests for convergence. A \<open>break\<close> of the batch loop only ends
  that loop: the epoch goes on behind it.\<close>

definition epoch_measure :: "'w engine \<Rightarrow> params \<Rightarrow> nat \<Rightarrow> 'w vars \<Rightarrow> 'w vars ctl" where
  "epoch_measure E P i_epoch s =
     (case epoch_batches E P i_epoch s of
        Return r s \<Rightarrow> Return r s
      | Normal s \<Rightarrow> epoch_summary E P i_epoch s
      | Break b s \<Rightarrow> epoch_summary E P i_epoch s)"

text \<open>The body of the epoch loop.\<close>

definition rbm_epoch :: "'w engine \<Rightarrow> params \<Rightarrow> nat \<Rightarrow> 'w vars \<Rightarrow> 'w vars ctl" where
  "rbm_epoch E P i_epoch s = seq (epoch_measure E P i_epoch s) (convergence_tests P i_epoch)"

text \<open>Everything before the epoch loop. \<open>k\<close> and \<open>most_recent_correct_error\<close> are
  declared and not initialised. (So are \<open>len_prev\<close>, \<open>best_crit\<close>, \<open>best_err\<close> and
  \<open>max_weight\<close>, which
  the source reads only under a test that an assignment came first; they keep the
  value they come with.)\<close>

definition rbm_setup :: "'w engine \<Rightarrow> params \<Rightarrow> 'w vars \<Rightarrow> 'w vars ctl" where
  "rbm_setup E P s =
     (let s = s\<lparr>k := None, most_recent_correct_error := None\<rparr>;
          s = s\<lparr>randnum := 1\<rparr>;
          s = s\<lparr>data_mean := find_mean_rbm (nc P) (n_inputs P) (ncols P) (data P) (data_mean s)\<rparr>;
          s = s\<lparr>shuffle_index := init_shuffle_index (nc P) (shuffle_index s)\<rparr>;
          max_batch = find_max_batch (nc P) (n_batches P)
      in case rbm_cuda_init E (nc P) (ncols P) (n_inputs P) (nhid P) (mean_field P)
                (greedy_mean_field P) max_batch (data P) (data_mean s) (in_bias s) (hid_bias s)
                (w s) (world s) of
           (ret_val, wld) \<Rightarrow>
             let s = s\<lparr>world := wld\<rparr>
             in if ret_val = ERROR_INSUFFICIENT_MEMORY E then Return (- 1) s
                else if ret_val = ERROR_CUDA_MEMORY E then Return (- 1) s
                else if ret_val = ERROR_CUDA_ERROR E then Return (- 1) s
                else Normal (s\<lparr>momentum := start_momentum P,
                               chain_length := real_of_int (n_chain_start P),
                               n_no_improvement := 0\<rparr>))"

text \<open>Everything after the epoch loop: fetch the parameters and return
  \<open>most_recent_correct_error\<close>.\<close>

definition rbm_finish :: "'w engine \<Rightarrow> params \<Rightarrow> 'w vars \<Rightarrow> real option \<times> 'w vars" where
  "rbm_finish E P s =
     (case cuda_params_from_device E (n_inputs P) (nhid P) (world s) of
        (ret_val, (ib, hb, ww), wld) \<Rightarrow>
          let s = s\<lparr>in_bias := ib, hid_bias := hb, w := ww, world := wld\<rparr>
          in if ret_val \<noteq> 0 then (Some (- 1), s)
             else (most_recent_correct_error s, s\<lparr>world := rbm_cuda_cleanup E (world s)\<rparr>))"

text \<open>The variables on entry to epoch \<open>n\<close>, when the run gets there.\<close>

definition rbm_epochs :: "'w engine \<Rightarrow> params \<Rightarrow> nat \<Rightarrow> 'w vars \<Rightarrow> 'w vars ctl" where
  "rbm_epochs E P n s = seq (rbm_setup E P s) (for_loop (rbm_epoch E P) [0..<n])"

definition rbm_cuda :: "'w engine \<Rightarrow> params \<Rightarrow> 'w vars \<Rightarrow> real option \<times> 'w vars" where
  "rbm_cuda E P s =
     (case rbm_epochs E P (max_epochs P) s of
        Return r s \<Rightarrow> (Some r, s)
      | Normal s \<Rightarrow> rbm_finish E P s
      | Break b s \<Rightarrow> rbm_finish E P s)"

text \<open>The variables on entry to trial \<open>n\<close> of \<open>rbm_cuda_wt_init\<close>, when the run gets
  there.\<close>

definition wt_trials :: "'w engine \<Rightarrow> params \<Rightarrow> nat \<Rightarrow> 'w vars \<Rightarrow> 'w vars ctl" where
  "wt_trials E P n s = seq (wt_setup E P s) (for_loop (wt_trial E P) [0..<n])"

subsection \<open>Notions used in the statements and proofs\<close>

text \<open>The variables that an outcome carries.\<close>

fun final :: "'s ctl \<Rightarrow> 's" where
  "final (Normal s) = s"
| "final (Break b s) = s"
| "final (Return r s) = s"

text \<open>Three groups of variables: those that only the end of an epoch assigns; the
  learning rate and the momentum; the stream.\<close>

definition epoch_part :: "'w vars \<Rightarrow> real \<times> int \<times> real \<times> real \<times> real option" where
  "epoch_part s =
     (chain_length s, n_no_improvement s, best_crit s, max_weight s, most_recent_correct_error s)"

definition rate_part :: "'w vars \<Rightarrow> real \<times> real" where
  "rate_part s = (learning_rate s, momentum s)"

definition stream_part :: "'w vars \<Rightarrow> int option \<times> int" where
  "stream_part s = (k s, randnum s)"

text \<open>The stream is in a state that advances from the seed 1 reach.\<close>

definition on_stream :: "'w vars \<Rightarrow> bool" where
  "on_stream s \<longleftrightarrow> (\<exists>m. randnum s = lcg_stream m)"

text \<open>The variables when trial \<open>j\<close> of \<open>rbm_cuda_wt_init\<close> has been evaluated: its error
  is in \<open>error\<close> and its parameters are in \<open>w\<close>, \<open>in_bias\<close> and \<open>hid_bias\<close>. \<open>None\<close>
  when the run does not get that far.\<close>

definition trial_result :: "'w engine \<Rightarrow> params \<Rightarrow> 'w vars \<Rightarrow> nat \<Rightarrow> 'w vars option" where
  "trial_result E P s j =
     (case wt_trials E P j s of
        Normal sj \<Rightarrow> (case wt_evaluate E P j sj of Normal u \<Rightarrow> Some u | _ \<Rightarrow> None)
      | _ \<Rightarrow> None)"

text \<open>The best-trial snapshot of \<open>s\<close> holds the parameters of \<open>t\<close>.\<close>

definition snapshot_of :: "params \<Rightarrow> 'w vars \<Rightarrow> 'w vars \<Rightarrow> bool" where
  "snapshot_of P s t \<longleftrightarrow>
     (\<forall>i < nhid P * n_inputs P. w_best s ! i = w t ! i) \<and>
     (\<forall>i < nhid P. hid_bias_best s ! i = hid_bias t ! i) \<and>
     (\<forall>i < n_inputs P. in_bias_best s ! i = in_bias t ! i)"

text \<open>What only \<open>save_best\<close> assigns.\<close>

definition best_part :: "'w vars \<Rightarrow> real \<times> real list \<times> real list \<times> real list" where
  "best_part s = (best_err s, w_best s, in_bias_best s, hid_bias_best s)"

text \<open>\<open>k\<close> holds the quotient of the advance that gave \<open>randnum\<close>.\<close>

definition stale :: "'w vars \<Rightarrow> bool" where
  "stale s \<longleftrightarrow> (\<exists>x. k s = Some (fst (lcg_advance x)) \<and> randnum s = snd (lcg_advance x))"

text \<open>Whether an outcome is the normal one.\<close>

fun completed :: "'s ctl \<Rightarrow> bool" where
  "completed (Normal s) = True"
| "completed (Break b s) = False"
| "completed (Return r s) = False"

text \<open>Whether an outcome is a \<open>return -1.0\<close> on a failure.\<close>

fun failed :: "'s ctl \<Rightarrow> bool" where
  "failed (Normal s) = False"
| "failed (Break b s) = False"
| "failed (Return r s) = True"

subsection \<open>A stub engine for concrete runs\<close>

text \<open>
  A small engine on which the routines can be run: every call succeeds; the world
  counts the polls of the keyboard, the queries of the largest weight (one per epoch)
  and the parameter uploads (one per trial), and records the seeds passed to
  \<open>cuda_fetch_vis1\<close>. The reconstruction error and the largest increment it reports
  grow with the epochs (the former is \<open>1\<close> in the second trial of the initialiser), the
  largest weight is \<open>1\<close>, so the ratio of the convergence tests is strictly increasing.
  The ESCape key is down from the third poll on, and the poll then sets the flag.
\<close>

record stub_world =
  flag :: int
  polls :: nat
  queries :: nat
  trials :: nat
  seeds :: "int option list"

definition stub :: "stub_world engine" where
  "stub = \<lparr>
     ERROR_INSUFFICIENT_MEMORY = 1, ERROR_CUDA_MEMORY = 2, ERROR_CUDA_ERROR = 3,
     rbm_cuda_init = (\<lambda>_ _ _ _ _ _ _ _ _ _ _ _ wld. (0, wld)),
     rbm_cuda_cleanup = (\<lambda>wld. wld),
     cuda_shuffle_to_device = (\<lambda>_ _ wld. (0, wld)),
     cuda_params_to_device = (\<lambda>_ _ _ _ _ wld. (0, wld\<lparr>trials := trials wld + 1\<rparr>)),
     cuda_params_from_device = (\<lambda>_ _ wld. (0, ([], [], []), wld)),
     cuda_fetch_vis1 = (\<lambda>_ _ _ seed wld. (0, wld\<lparr>seeds := seeds wld @ [seed]\<rparr>)),
     cuda_vis_to_hid = (\<lambda>_ _ wld. (0, wld)),
     cuda_hid_to_vis_direct = (\<lambda>_ _ wld. (0, wld)),
     cuda_sample_hidden2 = (\<lambda>_ _ _ wld. (0, wld)),
     cuda_hid_to_vis = (\<lambda>_ _ _ wld. (0, wld)),
     cuda_vis2_to_hid2 = (\<lambda>_ _ wld. (0, wld)),
     cuda_recon_error = (\<lambda>_ _ ev wld.
        (0, [if trials wld = 2 then 1 else 2 + real (queries wld)], wld)),
     cuda_update_in_bias = (\<lambda>_ _ _ _ wld. (0, wld)),
     cuda_update_hid_bias = (\<lambda>_ _ _ _ _ _ _ wld. (0, wld)),
     cuda_update_weights = (\<lambda>_ _ _ _ _ _ _ _ wld. (0, wld)),
     cuda_transpose = (\<lambda>_ _ wld. (0, wld)),
     cuda_max_inc_w = (\<lambda>_ normalize wld.
        if normalize = 1 then (0, real (queries wld) + 1, wld)
        else (0, 1, wld\<lparr>queries := queries wld + 1\<rparr>)),
     cuda_len_dot = (\<lambda>_ wld. (0, 1, 1, wld)),
     unifrand_fast = (\<lambda>wld. (0, wld)),
     user_pressed_escape = (\<lambda>wld.
        if polls wld \<ge> 2 then (1, wld\<lparr>flag := 1, polls := polls wld + 1\<rparr>)
        else (0, wld\<lparr>polls := polls wld + 1\<rparr>)),
     escape_key_pressed = flag,
     set_escape_key_pressed = (\<lambda>v wld. wld\<lparr>flag := v\<rparr>) \<rparr>"

definition stub_params :: params where
  "stub_params = \<lparr> nc = 1, n_inputs = 1, ncols = 1, data = [0], nhid = 1, n_rand = 2,
     n_batches = 1, n_chain_start = 1, n_chain_end = 3, n_chain_rate = 1 / 2, mean_field = 0,
     greedy_mean_field = 0, max_epochs = 3, max_no_imp = 0, convergence_crit = 0,
     start_momentum = 1 / 2, end_momentum = 9 / 10, weight_pen = 0, sparsity_penalty = 0,
     sparsity_target = 0 \<rparr>"

definition stub_vars :: "stub_world vars" where
  "stub_vars = \<lparr> w = [0], in_bias = [0], hid_bias = [0], w_best = [0], in_bias_best = [0],
     hid_bias_best = [0], data_mean = [0], err_vec = [0], shuffle_index = [0], error = 0,
     best_err = 0, n_done = 0, istart = 0, k = None, randnum = 1, learning_rate = 1 / 2000,
     momentum = 0, chain_length = 1, n_no_improvement = 0, max_inc = 0, max_weight = 0,
     len_prev = 0, best_crit = 0, most_recent_correct_error = None,
     world = \<lparr> flag = 0, polls = 0, queries = 0, trials = 0, seeds = [] \<rparr> \<rparr>"

text \<open>The variables of the run of \<open>rbm_cuda\<close> on the stub: on entry to epoch 0, after its
  batch, at its convergence tests; the same for epoch 1.\<close>

definition stub_s0 :: "stub_world vars" where
  "stub_s0 = stub_vars\<lparr>data_mean := [1 / 10 ^ 8], momentum := 1 / 2\<rparr>"

definition stub_b0 :: "stub_world vars" where
  "stub_b0 = stub_s0\<lparr>err_vec := [2], error := 2, n_done := 1, istart := 1, k := Some 12699,
     randnum := 984943658, max_inc := 1, len_prev := 1,
     world := (world stub_s0)\<lparr>seeds := [Some 0]\<rparr>\<rparr>"

definition stub_m0 :: "stub_world vars" where
  "stub_m0 = stub_b0\<lparr>best_err := 2, max_weight := 1, most_recent_correct_error := Some 2,
     world := (world stub_b0)\<lparr>queries := 1\<rparr>\<rparr>"

definition stub_s1 :: "stub_world vars" where
  "stub_s1 = stub_m0\<lparr>momentum := 63 / 125, chain_length := 2, best_crit := 1\<rparr>"

definition stub_b1 :: "stub_world vars" where
  "stub_b1 = stub_s1\<lparr>err_vec := [3], error := 3, k := Some 11416, randnum := 2007237709,
     learning_rate := 1 / 1000, momentum := 42 / 125, max_inc := 2,
     world := (world stub_s1)\<lparr>polls := 1, seeds := [Some 0, Some 7708]\<rparr>\<rparr>"

definition stub_m1 :: "stub_world vars" where
  "stub_m1 = stub_b1\<lparr>most_recent_correct_error := Some 3,
     world := (world stub_b1)\<lparr>polls := 2, queries := 2\<rparr>\<rparr>"

text \<open>The same run with a larger \<open>max_no_imp\<close> goes on to epoch 2, where the ESCape key
  ends the batch loop: the variables on entry to epoch 2 and at that \<open>break\<close>.\<close>

definition long_params :: params where
  "long_params = stub_params\<lparr>max_no_imp := 5\<rparr>"

definition stub_s2 :: "stub_world vars" where
  "stub_s2 = stub_m1\<lparr>n_no_improvement := 1, momentum := 8541 / 25000, chain_length := 5 / 2\<rparr>"

definition stub_x2 :: "stub_world vars" where
  "stub_x2 = stub_s2\<lparr>err_vec := [4], error := 4, n_done := 0, istart := 0, k := Some 11280,
     randnum := 16531729, max_inc := 3,
     world := (world stub_s2)\<lparr>flag := 1, polls := 3, seeds := [Some 0, Some 7708, Some 15709]\<rparr>\<rparr>"

text \<open>A poll that reports the key once, at its fourth call, and leaves the flag
  alone; a run of two cases in two batches; the variables of that run on entry to
  epoch 2 and when the batch loop of epoch 2 is left.\<close>

definition one_shot :: "stub_world engine" where
  "one_shot = stub\<lparr>user_pressed_escape :=
     (\<lambda>wld. (if polls wld = 3 then 1 else 0, wld\<lparr>polls := polls wld + 1\<rparr>))\<rparr>"

definition two_batch_params :: params where
  "two_batch_params = long_params\<lparr>nc := 2, data := [0, 0], n_batches := 2\<rparr>"

definition two_batch_vars :: "stub_world vars" where
  "two_batch_vars = stub_vars\<lparr>shuffle_index := [0, 0]\<rparr>"

definition one_shot_s2 :: "stub_world vars" where
  "one_shot_s2 = two_batch_vars\<lparr>data_mean := [1 / 10 ^ 8], err_vec := [3], shuffle_index := [0, 1],
     error := 3, best_err := 2, n_done := 2, istart := 2, k := Some 6444, randnum := 143542612,
     learning_rate := 9 / 6250, momentum := 1977 / 12500, chain_length := 5 / 2,
     n_no_improvement := 1, max_inc := 2, max_weight := 1, len_prev := 1, best_crit := 1,
     most_recent_correct_error := Some 3,
     world := \<lparr> flag = 0, polls = 3, queries = 2, trials = 0,
                seeds = [Some 0, Some 7708, Some 11409, Some 581] \<rparr>\<rparr>"

definition one_shot_x2 :: "stub_world vars" where
  "one_shot_x2 = one_shot_s2\<lparr>err_vec := [4], shuffle_index := [1, 0], error := 4, n_done := 0,
     istart := 0, k := Some 1545, randnum := 1404280278, max_inc := 3,
     world := \<lparr> flag = 0, polls = 4, queries = 2, trials = 0,
                seeds = [Some 0, Some 7708, Some 11409, Some 581, Some 1123] \<rparr>\<rparr>"

text \<open>An engine whose keyboard never reports the key, and a run of up to 200 epochs
  from chain length 1 towards 3 at the rate that the literal \<open>0.2\<close> denotes, the
  \<open>double\<close> nearest to one fifth.\<close>

definition quiet :: "stub_world engine" where
  "quiet = stub\<lparr>user_pressed_escape := (\<lambda>wld. (0, wld)), escape_key_pressed := (\<lambda>wld. 0)\<rparr>"

definition drift_params :: params where
  "drift_params = stub_params\<lparr>n_chain_rate := 3602879701896397 / 18014398509481984,
     max_epochs := 200, max_no_imp := 200\<rparr>"

text \<open>The same, from chain length 3 towards 1 at the rate one half.\<close>

definition down_params :: params where
  "down_params = drift_params\<lparr>n_chain_start := 3, n_chain_end := 1, n_chain_rate := 1 / 2\<rparr>"

text \<open>An engine whose reconstruction error routine fails and leaves the error vector
  as it was.\<close>

definition bad_recon :: "stub_world engine" where
  "bad_recon = stub\<lparr>cuda_recon_error := (\<lambda>_ _ ev wld. (1, ev, wld))\<rparr>"

text \<open>A run of two batches without sampling of the visible layer.\<close>

definition greedy_params :: params where
  "greedy_params = two_batch_params\<lparr>greedy_mean_field := 1\<rparr>"

text \<open>An engine that reports a reconstruction error of \<open>1e40\<close>, and a caller whose
  snapshot buffer \<open>w_best\<close> holds 5 on entry.\<close>

definition huge_err :: "stub_world engine" where
  "huge_err = stub\<lparr>cuda_recon_error := (\<lambda>_ _ ev wld. (0, [10 ^ 40], wld))\<rparr>"

definition garbage_vars :: "stub_world vars" where
  "garbage_vars = stub_vars\<lparr>w_best := [5]\<rparr>"

section \<open>Properties\<close>

subsection \<open>Control flow and the variables a step leaves alone\<close>

lemma seq_simps [simp]:
  "seq (Normal s) f = f s" "seq (Break b s) f = Break b s" "seq (Return r s) f = Return r s"
  by (simp_all add: seq_def)

lemma seq_eq_Normal: "seq m f = Normal s' \<longleftrightarrow> (\<exists>s1. m = Normal s1 \<and> f s1 = Normal s')"
  by (cases m) auto

lemma seq_assoc: "seq (seq m f) g = seq m (\<lambda>s. seq (f s) g)"
  by (cases m) auto

lemma for_loop_append: "for_loop body (xs @ ys) s = seq (for_loop body xs s) (for_loop body ys)"
  by (induction xs arbitrary: s) (auto simp: seq_def split: ctl.splits)

lemma for_loop_Suc: "for_loop body [0..<Suc n] s = seq (for_loop body [0..<n] s) (body n)"
proof -
  have "for_loop body [n] = body n"
    by (rule ext) (simp add: seq_def split: ctl.splits)
  then show ?thesis by (simp add: for_loop_append)
qed

lemma epoch_part_seq [simp]:
  "(\<And>s. epoch_part (final (f s)) = epoch_part s) \<Longrightarrow> epoch_part (final (seq m f)) = epoch_part (final m)"
  by (cases m) auto

lemma rate_part_seq [simp]:
  "(\<And>s. rate_part (final (f s)) = rate_part s) \<Longrightarrow> rate_part (final (seq m f)) = rate_part (final m)"
  by (cases m) auto

lemma stream_part_seq [simp]:
  "(\<And>s. stream_part (final (f s)) = stream_part s) \<Longrightarrow> stream_part (final (seq m f)) = stream_part (final m)"
  by (cases m) auto

lemma epoch_part_for_loop [simp]:
  "(\<And>i s. epoch_part (final (body i s)) = epoch_part s) \<Longrightarrow>
   epoch_part (final (for_loop body xs s)) = epoch_part s"
  by (induction xs arbitrary: s) auto

lemma rate_part_for_loop [simp]:
  "(\<And>i s. rate_part (final (body i s)) = rate_part s) \<Longrightarrow>
   rate_part (final (for_loop body xs s)) = rate_part s"
  by (induction xs arbitrary: s) auto

lemma stream_part_for_loop [simp]:
  "(\<And>i s. stream_part (final (body i s)) = stream_part s) \<Longrightarrow>
   stream_part (final (for_loop body xs s)) = stream_part s"
  by (induction xs arbitrary: s) auto

lemma epoch_part_upd [simp]:
  "epoch_part (s\<lparr>world := a\<rparr>) = epoch_part s"
  "epoch_part (s\<lparr>k := b\<rparr>) = epoch_part s"
  "epoch_part (s\<lparr>randnum := c\<rparr>) = epoch_part s"
  "epoch_part (s\<lparr>err_vec := d\<rparr>) = epoch_part s"
  "epoch_part (s\<lparr>error := e\<rparr>) = epoch_part s"
  "epoch_part (s\<lparr>max_inc := f\<rparr>) = epoch_part s"
  "epoch_part (s\<lparr>n_done := g\<rparr>) = epoch_part s"
  "epoch_part (s\<lparr>istart := h\<rparr>) = epoch_part s"
  "epoch_part (s\<lparr>len_prev := i\<rparr>) = epoch_part s"
  "epoch_part (s\<lparr>shuffle_index := j\<rparr>) = epoch_part s"
  "epoch_part (s\<lparr>learning_rate := l\<rparr>) = epoch_part s"
  "epoch_part (s\<lparr>momentum := m\<rparr>) = epoch_part s"
  by (simp_all add: epoch_part_def)

lemma rate_part_upd [simp]:
  "rate_part (s\<lparr>world := a\<rparr>) = rate_part s"
  "rate_part (s\<lparr>k := b\<rparr>) = rate_part s"
  "rate_part (s\<lparr>randnum := c\<rparr>) = rate_part s"
  "rate_part (s\<lparr>err_vec := d\<rparr>) = rate_part s"
  "rate_part (s\<lparr>error := e\<rparr>) = rate_part s"
  "rate_part (s\<lparr>max_inc := f\<rparr>) = rate_part s"
  "rate_part (s\<lparr>n_done := g\<rparr>) = rate_part s"
  "rate_part (s\<lparr>istart := h\<rparr>) = rate_part s"
  "rate_part (s\<lparr>len_prev := i\<rparr>) = rate_part s"
  "rate_part (s\<lparr>shuffle_index := j\<rparr>) = rate_part s"
  by (simp_all add: rate_part_def)

lemma stream_part_upd [simp]:
  "stream_part (s\<lparr>world := a\<rparr>) = stream_part s"
  "stream_part (s\<lparr>err_vec := d\<rparr>) = stream_part s"
  "stream_part (s\<lparr>error := e\<rparr>) = stream_part s"
  "stream_part (s\<lparr>max_inc := f\<rparr>) = stream_part s"
  "stream_part (s\<lparr>n_done := g\<rparr>) = stream_part s"
  "stream_part (s\<lparr>istart := h\<rparr>) = stream_part s"
  "stream_part (s\<lparr>len_prev := i\<rparr>) = stream_part s"
  "stream_part (s\<lparr>shuffle_index := j\<rparr>) = stream_part s"
  "stream_part (s\<lparr>learning_rate := l\<rparr>) = stream_part s"
  "stream_part (s\<lparr>momentum := m\<rparr>) = stream_part s"
  by (simp_all add: stream_part_def)

lemma call_parts [simp]:
  "epoch_part (final (call f s)) = epoch_part s"
  "rate_part (final (call f s)) = rate_part s"
  "stream_part (final (call f s)) = stream_part s"
  by (auto simp: call_def split: prod.splits)

lemma advance_parts [simp]:
  "epoch_part (advance s) = epoch_part s" "rate_part (advance s) = rate_part s"
  by (auto simp: advance_def split: prod.splits)

lemma pre_fetch_parts [simp]:
  "epoch_part (pre_fetch P s) = epoch_part s" "rate_part (pre_fetch P s) = rate_part s"
  by (auto simp: pre_fetch_def)

lemma cumulate_error_parts [simp]:
  "epoch_part (cumulate_error n s) = epoch_part s"
  "rate_part (cumulate_error n s) = rate_part s"
  "stream_part (cumulate_error n s) = stream_part s"
  unfolding cumulate_error_def by (induction n) auto

lemma final_if: "final (if c then a else b) = (if c then final a else final b)"
  by simp

lemma chain_step_parts [simp]:
  "epoch_part (final (chain_step E P n i s)) = epoch_part s"
  "rate_part (final (chain_step E P n i s)) = rate_part s"
  unfolding chain_step_def Let_def
  by (simp_all add: final_if split: prod.splits)

lemma batch_update_parts [simp]:
  "epoch_part (final (batch_update E P n i s)) = epoch_part s"
  "rate_part (final (batch_update E P n i s)) = rate_part s"
  unfolding batch_update_def Let_def
  by (simp_all add: final_if split: prod.splits)

lemma shuffle_parts [simp]:
  "epoch_part (shuffle E i s) = epoch_part s"
  "rate_part (shuffle E i s) = rate_part s"
  "randnum (shuffle E i s) = randnum s"
  by (induction E i s rule: shuffle.induct; subst shuffle.simps; simp add: Let_def split: prod.splits)+

lemma adapt_epoch_part [simp]: "epoch_part (adapt d s) = epoch_part s"
  and adapt_stream_part [simp]: "stream_part (adapt d s) = stream_part s"
  by (simp_all add: adapt_def Let_def)

lemma gradient_step_parts [simp]:
  "epoch_part (final (gradient_step E P e b s)) = epoch_part s"
  "stream_part (final (gradient_step E P e b s)) = stream_part s"
  unfolding gradient_step_def Let_def
  by (simp_all add: final_if split: prod.splits)

lemma rbm_batch_epoch_part [simp]:
  "epoch_part (final (rbm_batch E P e b s)) = epoch_part s"
  unfolding rbm_batch_def Let_def
  by (simp add: final_if split: prod.splits)

lemma epoch_batches_epoch_part [simp]:
  "epoch_part (final (epoch_batches E P e s)) = epoch_part s"
  unfolding epoch_batches_def epoch_begin_def Let_def seq_assoc
  by simp


lemmas model_defs = rbm_cuda_def rbm_epochs_def rbm_setup_def rbm_finish_def rbm_epoch_def
  epoch_measure_def epoch_batches_def epoch_begin_def seq_assoc epoch_summary_def
  convergence_tests_def anneal_def
  rbm_batch_def batch_update_def pre_fetch_def gradient_step_def adapt_def chain_step_def
  advance_def epoch_escape_check_def escape_check_def escape_reset_def call_def
  cumulate_error_def init_shuffle_index_def find_max_batch_def batch_size_def c_trunc_def



subsection \<open>Rounding\<close>

lemma round_even_of_int [simp]: "round_even (of_int n) = n"
  by (simp add: round_even_def)

lemma round_even_mono: "x \<le> y \<Longrightarrow> round_even x \<le> round_even y"
proof -
  assume xy: "x \<le> y"
  then have fl: "\<lfloor>x\<rfloor> \<le> \<lfloor>y\<rfloor>" by (rule floor_mono)
  show ?thesis
  proof (cases "\<lfloor>x\<rfloor> = \<lfloor>y\<rfloor>")
    case True
    then have "x - of_int \<lfloor>x\<rfloor> \<le> y - of_int \<lfloor>y\<rfloor>" using xy by simp
    then show ?thesis using True by (auto simp: round_even_def Let_def)
  next
    case False
    with fl have "\<lfloor>x\<rfloor> + 1 \<le> \<lfloor>y\<rfloor>" by simp
    moreover have "round_even x \<le> \<lfloor>x\<rfloor> + 1" by (simp add: round_even_def Let_def)
    moreover have "\<lfloor>y\<rfloor> \<le> round_even y" by (simp add: round_even_def Let_def)
    ultimately show ?thesis by linarith
  qed
qed

lemma round_even_minus: "round_even (- x) = - round_even x"
proof (cases "x \<in> \<int>")
  case True
  then obtain n where "x = of_int n" by (auto elim: Ints_cases)
  then have "- x = of_int (- n)" by simp
  then show ?thesis unfolding \<open>x = of_int n\<close> by (simp only: round_even_of_int)
next
  case False
  then have "of_int \<lfloor>x\<rfloor> \<noteq> x" by (metis Ints_of_int)
  then have f: "\<lfloor>- x\<rfloor> = - \<lfloor>x\<rfloor> - 1"
    by (simp add: floor_minus ceiling_altdef)
  then show ?thesis
    by (auto simp: round_even_def Let_def)
qed

lemma bexp_minus [simp]: "bexp (- x) = bexp x"
  by (simp add: bexp_def)

lemma bexp_bounds:
  assumes "x \<noteq> 0"
  shows "2 powi (bexp x) \<le> \<bar>x\<bar>" and "\<bar>x\<bar> < 2 powi (bexp x + 1)"
proof -
  have "2 powi (bexp x) \<le> \<bar>x\<bar> \<and> \<bar>x\<bar> < 2 powi (bexp x + 1)"
  proof (cases "1 \<le> \<bar>x\<bar>")
    case True
    define n where "n = \<lfloor>\<bar>x\<bar>\<rfloor>"
    have n: "0 < n" using True by (simp add: n_def)
    from bitlen_bounds[OF n] have lo: "2 ^ nat (bitlen n - 1) \<le> n" and hi: "n < 2 ^ nat (bitlen n)"
      by simp_all
    have b: "1 \<le> bitlen n" using n by (simp add: bitlen_alt_def)
    have e: "bexp x = bitlen n - 1" using True by (simp add: bexp_def n_def)
    have "real_of_int (2 ^ nat (bitlen n - 1)) \<le> real_of_int n" using lo by (simp only: of_int_le_iff)
    also have "\<dots> \<le> \<bar>x\<bar>" by (simp add: n_def)
    finally have 1: "2 powi (bexp x) \<le> \<bar>x\<bar>" using b by (simp add: e power_int_def)
    have "n + 1 \<le> 2 ^ nat (bitlen n)" using hi by simp
    then have "real_of_int (n + 1) \<le> real_of_int (2 ^ nat (bitlen n))" by (simp only: of_int_le_iff)
    moreover have "\<bar>x\<bar> < real_of_int (n + 1)" by (simp add: n_def)
    ultimately have "\<bar>x\<bar> < 2 ^ nat (bitlen n)" by simp
    then have 2: "\<bar>x\<bar> < 2 powi (bexp x + 1)" using b by (simp add: e power_int_def)
    from 1 2 show ?thesis by simp
  next
    case False
    define z where "z = 1 / \<bar>x\<bar>"
    define c where "c = \<lceil>z\<rceil>"
    have z: "1 < z" using False assms by (simp add: z_def)
    then have c: "2 \<le> c" by (simp add: c_def le_ceiling_iff)
    define b where "b = bitlen (c - 1)"
    have c1: "0 < c - 1" using c by simp
    from bitlen_bounds[OF c1] have lo: "2 ^ nat (b - 1) \<le> c - 1" and hi: "c - 1 < 2 ^ nat b"
      by (simp_all add: b_def)
    have b1: "1 \<le> b" using c1 by (simp add: b_def bitlen_alt_def)
    have e: "bexp x = - b" using False by (simp add: bexp_def b_def c_def z_def)
    have "real_of_int (c - 1) < z" unfolding c_def by linarith
    moreover have "real_of_int (2 ^ nat (b - 1)) \<le> real_of_int (c - 1)"
      using lo by (simp only: of_int_le_iff)
    ultimately have zlo: "2 ^ nat (b - 1) < z" by simp
    have "c \<le> 2 ^ nat b" using hi by simp
    then have "real_of_int c \<le> real_of_int (2 ^ nat b)" by (simp only: of_int_le_iff)
    moreover have "z \<le> real_of_int c" by (simp add: c_def)
    moreover have "real_of_int (2 ^ nat b) = 2 ^ nat b" by simp
    ultimately have zhi: "z \<le> 2 ^ nat b" by linarith
    have x: "\<bar>x\<bar> = 1 / z" using assms by (simp add: z_def)
    have z0: "0 < z" using z by simp
    have "1 / 2 ^ nat b \<le> 1 / z" using zhi z0 by (simp add: frac_le)
    then have 1: "2 powi (bexp x) \<le> \<bar>x\<bar>"
      using b1 by (simp add: e x power_int_def field_simps)
    have "1 / z < 1 / 2 ^ nat (b - 1)" using zlo by (simp add: frac_less2)
    moreover have "2 powi (bexp x + 1) = (1::real) / 2 ^ nat (b - 1)"
    proof (cases "b = 1")
      case True
      then show ?thesis by (simp add: e)
    next
      case False
      with b1 have "- b + 1 < 0" by simp
      moreover have "nat (- (- b + 1)) = nat (b - 1)" by simp
      ultimately show ?thesis by (simp add: e power_int_def field_simps)
    qed
    ultimately have 2: "\<bar>x\<bar> < 2 powi (bexp x + 1)" by (simp add: x)
    from 1 2 show ?thesis by simp
  qed
  then show "2 powi (bexp x) \<le> \<bar>x\<bar>" and "\<bar>x\<bar> < 2 powi (bexp x + 1)" by simp_all
qed

lemma bexp_eqI:
  assumes "2 powi e \<le> \<bar>x\<bar>" "\<bar>x\<bar> < 2 powi (e + 1)"
  shows "bexp x = e"
proof -
  have "0 < (2::real) powi e" by simp
  with assms(1) have "0 < \<bar>x\<bar>" by linarith
  then have x: "x \<noteq> 0" by simp
  from bexp_bounds[OF x] assms have "(2::real) powi (bexp x) < 2 powi (e + 1)"
    and "(2::real) powi e < 2 powi (bexp x + 1)" by linarith+
  then have "bexp x < e + 1" and "e < bexp x + 1"
    by (metis not_less power_int_increasing one_le_numeral)+
  then show ?thesis by simp
qed

lemma fl_0 [simp]: "fl 0 = 0"
  by (simp add: fl_def)

lemma fl_minus: "fl (- x) = - fl x"
  by (simp add: fl_def Let_def round_even_minus)

lemma fl_binade:
  assumes "2 powi e \<le> \<bar>x\<bar>" "\<bar>x\<bar> < 2 powi (e + 1)"
  shows "fl x = of_int (round_even (x / 2 powi (e - 52))) * 2 powi (e - 52)"
proof -
  have "0 < (2::real) powi e" by simp
  with assms(1) have "0 < \<bar>x\<bar>" by linarith
  then have x: "x \<noteq> 0" by simp
  show ?thesis using x bexp_eqI[OF assms] by (simp add: fl_def Let_def)
qed

lemma fl_pos_bounds:
  assumes "0 < x"
  shows "2 powi (bexp x) \<le> fl x" and "fl x \<le> 2 powi (bexp x + 1)"
proof -
  define e where "e = bexp x"
  define p :: real where "p = 2 powi (e - 52)"
  have p: "0 < p" by (simp add: p_def)
  have x: "x \<noteq> 0" using assms by simp
  from bexp_bounds[OF x] assms have lo: "2 powi e \<le> x" and hi: "x < 2 powi (e + 1)"
    by (simp_all add: e_def)
  have flx: "fl x = of_int (round_even (x / p)) * p"
    using x by (simp add: fl_def Let_def e_def p_def)
  have a: "(2::real) powi e = 2 ^ 52 * p"
    by (simp add: p_def power_int_diff)
  have b: "(2::real) powi (e + 1) = 2 ^ 53 * p"
    by (simp add: p_def power_int_diff power_int_add)
  have "real_of_int (2 ^ 52) \<le> x / p" using lo p by (simp add: a pos_le_divide_eq)
  from round_even_mono[OF this] have "2 ^ 52 \<le> round_even (x / p)"
    by (simp only: round_even_of_int)
  then have "real_of_int (2 ^ 52) \<le> real_of_int (round_even (x / p))"
    by (simp only: of_int_le_iff)
  then have "2 ^ 52 * p \<le> of_int (round_even (x / p)) * p" using p by simp
  then show "2 powi (bexp x) \<le> fl x" by (simp add: flx a e_def[symmetric])
  have "x / p \<le> real_of_int (2 ^ 53)" using hi p by (simp add: b pos_divide_le_eq)
  from round_even_mono[OF this] have "round_even (x / p) \<le> 2 ^ 53"
    by (simp only: round_even_of_int)
  then have "real_of_int (round_even (x / p)) \<le> real_of_int (2 ^ 53)"
    by (simp only: of_int_le_iff)
  then have "of_int (round_even (x / p)) * p \<le> 2 ^ 53 * p" using p by simp
  then show "fl x \<le> 2 powi (bexp x + 1)" by (simp add: flx b e_def[symmetric])
qed

lemma fl_mono_pos:
  assumes "0 < x" "x \<le> y"
  shows "fl x \<le> fl y"
proof -
  have y: "0 < y" using assms by simp
  have x0: "x \<noteq> 0" and y0: "y \<noteq> 0" using assms by simp_all
  have "(2::real) powi (bexp x) \<le> \<bar>x\<bar>" by (rule bexp_bounds[OF x0])
  also have "\<dots> \<le> \<bar>y\<bar>" using assms by simp
  also have "\<dots> < 2 powi (bexp y + 1)" by (rule bexp_bounds[OF y0])
  finally have "bexp x < bexp y + 1"
    by (metis not_less power_int_increasing one_le_numeral)
  then have le: "bexp x \<le> bexp y" by simp
  show ?thesis
  proof (cases "bexp x = bexp y")
    case True
    have "x / 2 powi (bexp y - 52) \<le> y / 2 powi (bexp y - 52)"
      using assms by (simp add: divide_right_mono)
    from round_even_mono[OF this]
    have "real_of_int (round_even (x / 2 powi (bexp y - 52)))
          \<le> real_of_int (round_even (y / 2 powi (bexp y - 52)))" by simp
    then show ?thesis using x0 y0 True by (simp add: fl_def Let_def mult_right_mono)
  next
    case False
    with le have "bexp x + 1 \<le> bexp y" by simp
    then have "(2::real) powi (bexp x + 1) \<le> 2 powi (bexp y)"
      by (intro power_int_increasing) simp_all
    with fl_pos_bounds(2)[OF assms(1)] fl_pos_bounds(1)[OF y] show ?thesis by linarith
  qed
qed

lemma fl_nonneg: "0 \<le> x \<Longrightarrow> 0 \<le> fl x"
proof (cases "x = 0")
  case True
  then show ?thesis by simp
next
  case False
  assume "0 \<le> x"
  with False have x: "0 < x" by simp
  have "0 < (2::real) powi (bexp x)" by simp
  with fl_pos_bounds(1)[OF x] show ?thesis by linarith
qed

lemma fl_mono: "x \<le> y \<Longrightarrow> fl x \<le> fl y"
proof -
  assume xy: "x \<le> y"
  consider "0 < x" | "x \<le> 0" "0 \<le> y" | "y < 0" by linarith
  then show ?thesis
  proof cases
    case 1
    then show ?thesis using xy by (rule fl_mono_pos)
  next
    case 2
    have "0 \<le> fl (- x)" using 2 by (intro fl_nonneg) simp
    moreover have "0 \<le> fl y" using 2 by (intro fl_nonneg)
    ultimately show ?thesis by (simp add: fl_minus)
  next
    case 3
    have "fl (- y) \<le> fl (- x)" using 3 xy by (intro fl_mono_pos) simp_all
    then show ?thesis by (simp add: fl_minus)
  qed
qed

lemmas fl_eval = fl_binade[where e = "- 1"] fl_binade[where e = 0] fl_binade[where e = 1]
  round_even_def Let_def

lemma chain_update_half:
  "chain_update (1 / 2) 3 1 = 2" "chain_update (1 / 2) 3 2 = 5 / 2"
  "chain_update (1 / 2) 3 (5 / 2) = 11 / 4"
  by (simp_all add: chain_update_def fl_eval)

lemma chain_update_mono:
  assumes "r \<le> 1" "x \<le> y"
  shows "chain_update r e x \<le> chain_update r e y"
proof -
  have "0 \<le> fl (1 - r)" using assms(1) by (intro fl_nonneg) simp
  then have "fl (1 - r) * x \<le> fl (1 - r) * y" using assms(2) by (rule mult_left_mono[rotated])
  then show ?thesis unfolding chain_update_def by (intro fl_mono add_right_mono)
qed

subsection \<open>The random stream\<close>

lemma wrap32_id: "- 2147483648 \<le> x \<Longrightarrow> x < 2147483648 \<Longrightarrow> wrap32 x = x"
  by (simp add: wrap32_def)

lemma sdiv_nonneg: "0 \<le> x \<Longrightarrow> 0 < y \<Longrightarrow> (x::int) sdiv y = x div y"
  by (simp add: signed_divide_int_def sgn_if)

text \<open>Schrage's decomposition: with \<open>x = IQ * q + r\<close> no intermediate result leaves
  the 32-bit range, and \<open>IA * r - IR * q\<close> is \<open>IA * x\<close> less a multiple of \<open>IM\<close>.\<close>

lemma schrage:
  assumes "1 \<le> x" "x \<le> 2147483646"
  shows "snd (lcg_advance x) = (16807 * x) mod 2147483647"
    and "fst (lcg_advance x) = x div 127773"
proof -
  define q where "q = x div 127773"
  define r where "r = x mod 127773"
  have x: "x = 127773 * q + r" by (simp add: q_def r_def)
  have q: "0 \<le> q" "q \<le> 16807" using assms by (auto simp: q_def)
  have r: "0 \<le> r" "r < 127773" by (auto simp: r_def)
  have quot: "x sdiv IQ = q" using assms by (simp add: sdiv_nonneg IQ_def q_def)
  have w1: "wrap32 (q * IQ) = q * 127773" using q by (simp add: wrap32_id IQ_def)
  have w2: "wrap32 (x - q * 127773) = r" using r x by (simp add: wrap32_id)
  have w3: "wrap32 (IA * r) = 16807 * r" using r by (simp add: wrap32_id IA_def)
  have w4: "wrap32 (IR * q) = 2836 * q" using q by (simp add: wrap32_id IR_def)
  define t where "t = 16807 * r - 2836 * q"
  have t: "- 2147483647 < t" "t < 2147483647" using q r by (auto simp: t_def)
  have w5: "wrap32 (16807 * r - 2836 * q) = t" using t by (simp add: wrap32_id t_def)
  have w6: "t < 0 \<Longrightarrow> wrap32 (t + IM) = t + 2147483647" using t by (simp add: wrap32_id IM_def)
  have eq: "16807 * x = 2147483647 * q + t" by (simp add: x t_def)
  have res: "snd (lcg_advance x) = (if t < 0 then t + 2147483647 else t)"
    using w6 by (simp add: lcg_advance_def Let_def quot w1 w2 w3 w4 w5)
  have "(16807 * x) mod 2147483647 = t mod 2147483647"
    unfolding eq by (simp add: mod_add_left_eq)
  also have "\<dots> = (if t < 0 then t + 2147483647 else t)"
  proof (cases "t < 0")
    case True
    have "t mod 2147483647 = (t + 2147483647) mod 2147483647" by simp
    also have "\<dots> = t + 2147483647" using t True by (intro mod_pos_pos_trivial) auto
    finally show ?thesis using True by simp
  next
    case False
    then show ?thesis using t by simp
  qed
  finally show "snd (lcg_advance x) = (16807 * x) mod 2147483647" using res by simp
  show "fst (lcg_advance x) = x div 127773" by (simp add: lcg_advance_def Let_def quot q_def)
qed

text \<open>\<open>16807\<close> is invertible modulo \<open>IM\<close> (its inverse is \<open>1407677000\<close>), so the
  recurrence never reaches zero.\<close>

lemma park_miller_nonzero:
  assumes "1 \<le> x" "x \<le> 2147483646"
  shows "(16807 * x) mod 2147483647 \<noteq> (0::int)"
proof
  assume "(16807 * x) mod 2147483647 = 0"
  then have "2147483647 dvd 16807 * x" by (simp add: mod_eq_0_iff_dvd)
  then have "2147483647 dvd 1407677000 * (16807 * x)" by (rule dvd_mult)
  moreover have "1407677000 * (16807 * x) = 2147483647 * (11017 * x) + x" by simp
  ultimately have "2147483647 dvd 2147483647 * (11017 * x) + x" by simp
  then have "2147483647 dvd x" by (simp only: dvd_add_right_iff dvd_triv_left)
  then have "2147483647 \<le> x" using assms by (intro zdvd_imp_le) auto
  then show False using assms by simp
qed

lemma lcg_advance_range:
  assumes "1 \<le> x" "x \<le> 2147483646"
  shows "1 \<le> snd (lcg_advance x)" "snd (lcg_advance x) \<le> 2147483646"
proof -
  have "0 \<le> (16807 * x) mod 2147483647" "(16807 * x) mod 2147483647 < 2147483647"
    by simp_all
  with park_miller_nonzero[OF assms] schrage(1)[OF assms]
  show "1 \<le> snd (lcg_advance x)" "snd (lcg_advance x) \<le> 2147483646"
    by linarith+
qed

lemma lcg_advance_eval:
  "1 \<le> x \<Longrightarrow> x \<le> 2147483646 \<Longrightarrow> lcg_advance x = (x div 127773, (16807 * x) mod 2147483647)"
  using schrage[of x] by (simp add: prod_eq_iff)

lemma lcg_stream_range: "1 \<le> lcg_stream n \<and> lcg_stream n \<le> 2147483646"
  by (induction n) (auto simp: lcg_advance_range)

lemma lcg_stream_closed_form: "lcg_stream n = 16807 ^ n mod 2147483647"
proof (induction n)
  case 0
  show ?case by simp
next
  case (Suc n)
  have "lcg_stream (Suc n) = (16807 * lcg_stream n) mod 2147483647"
    using lcg_stream_range[of n] by (simp add: schrage(1))
  also have "\<dots> = (16807 * (16807 ^ n mod 2147483647)) mod 2147483647"
    by (simp only: Suc.IH)
  also have "\<dots> = 16807 ^ Suc n mod 2147483647"
    by (simp add: mod_mult_right_eq)
  finally show ?case .
qed

subsection \<open>The data means\<close>

lemma fold_update_length:
  "length (fold (\<lambda>j ys. ys[j := g j (ys ! j)]) [0..<n] xs) = length xs"
  by (induction n) auto

lemma fold_update_nth:
  "i < length xs \<Longrightarrow>
   fold (\<lambda>j ys. ys[j := g j (ys ! j)]) [0..<n] xs ! i = (if i < n then g i (xs ! i) else xs ! i)"
  by (induction n) (auto simp: nth_list_update fold_update_length less_Suc_eq)

lemma clamp_step:
  "(\<lambda>ivis dm.
      let dm = dm[ivis := dm ! ivis / c];
          dm = (if dm ! ivis < lo then dm[ivis := lo] else dm)
      in (if dm ! ivis > hi then dm[ivis := hi] else dm))
   = (\<lambda>ivis dm. dm[ivis := (let m = dm ! ivis / c; m = (if m < lo then lo else m)
                             in if m > hi then hi else m)])"
  apply (intro ext)
  subgoal for ivis dm
    by (cases "ivis < length dm") (auto simp: Let_def list_update_beyond)
  done

lemma fold_rows_length:
  "length (fold (\<lambda>r dm. fold (\<lambda>j ys. ys[j := ys ! j + f r j]) [0..<n] dm) [0..<m] xs) = length xs"
  using fold_update_length[where g="\<lambda>j v. v + f r j" for r] by (induction m) auto

lemma fold_rows_nth:
  "i < length xs \<Longrightarrow> i < n \<Longrightarrow>
   fold (\<lambda>r dm. fold (\<lambda>j ys. ys[j := ys ! j + f r j]) [0..<n] dm) [0..<m] xs ! i
     = xs ! i + (\<Sum>r<m. f r i)"
  using fold_update_nth[where g="\<lambda>j v. v + f r j" for r]
  by (induction m) (auto simp: fold_rows_length add.assoc)

text \<open>The three loops together: zero, cumulate over the rows, divide and clamp.\<close>

lemma mean_pipeline:
  fixes dm :: "real list"
  assumes "ivis < ni" "ni \<le> length dm"
  shows "fold (\<lambda>ivis dm.
                 let dm = dm[ivis := dm ! ivis / c];
                     dm = (if dm ! ivis < lo then dm[ivis := lo] else dm)
                 in (if dm ! ivis > hi then dm[ivis := hi] else dm)) [0..<ni]
           (fold (\<lambda>r dm. fold (\<lambda>j ys. ys[j := ys ! j + f r j]) [0..<ni] dm) [0..<m]
             (fold (\<lambda>j ys. ys[j := 0]) [0..<ni] dm)) ! ivis
         = (let m = (\<Sum>r<m. f r ivis) / c; m = (if m < lo then lo else m) in if m > hi then hi else m)"
proof -
  define a where "a = fold (\<lambda>j ys. ys[j := (0::real)]) [0..<ni] dm"
  define b where "b = fold (\<lambda>r dm. fold (\<lambda>j ys. ys[j := ys ! j + f r j]) [0..<ni] dm) [0..<m] a"
  have la: "length a = length dm"
    unfolding a_def using fold_update_length[where g="\<lambda>j v. (0::real)"] by simp
  have a: "a ! ivis = 0"
    unfolding a_def using fold_update_nth[where g="\<lambda>j v. (0::real)", of ivis dm ni] assms by simp
  have lb: "length b = length dm"
    unfolding b_def using la by (simp add: fold_rows_length)
  have b: "b ! ivis = (\<Sum>r<m. f r ivis)"
    unfolding b_def using fold_rows_nth[of ivis a ni f m] a la assms by simp
  show ?thesis
    unfolding clamp_step a_def[symmetric] b_def[symmetric]
    using fold_update_nth[where g="\<lambda>j v. (let m = v / c; m = (if m < lo then lo else m) in if m > hi then hi else m)", of ivis b ni]
      lb b assms by simp
qed

lemma clamp_max_min:
  "lo \<le> hi \<Longrightarrow> (let m = x; m = (if m < lo then lo else m) in if m > hi then hi else m) = max lo (min hi (x::real))"
  by (auto simp: Let_def max_def min_def)

lemma find_mean_rbm_nth:
  assumes "ivis < ni" "ni \<le> length dm"
  shows "find_mean_rbm n ni cols d dm ! ivis
         = max (1 / 10 ^ 8) (min (1 - 1 / 10 ^ 8) ((\<Sum>icase<n. d ! (icase * cols + ivis)) / real n))"
proof -
  have "find_mean_rbm n ni cols d dm ! ivis
        = (let m = (\<Sum>r<n. d ! (r * cols + ivis)) / real n; m = (if m < 1 / 10 ^ 8 then 1 / 10 ^ 8 else m)
           in if m > 1 - 1 / 10 ^ 8 then 1 - 1 / 10 ^ 8 else m)"
    unfolding find_mean_rbm_def Let_def
    using mean_pipeline[OF assms, where f="\<lambda>r j. d ! (r * cols + j)", unfolded Let_def] .
  also have "\<dots> = max (1 / 10 ^ 8) (min (1 - 1 / 10 ^ 8) ((\<Sum>icase<n. d ! (icase * cols + ivis)) / real n))"
    by (rule clamp_max_min) simp
  finally show ?thesis .
qed

lemma find_mean_wt_init_nth:
  assumes "ivis < ni" "ni \<le> length dm"
  shows "find_mean_wt_init n ni cols d dm ! ivis
         = max (1 / 10 ^ 8) (min (1 - 1 / 10 ^ 8) ((\<Sum>i<n. d ! (i * cols + ivis)) / real n))"
proof -
  have "find_mean_wt_init n ni cols d dm ! ivis
        = (let m = (\<Sum>r<n. d ! (r * cols + ivis)) / real n; m = (if m < 1 / 10 ^ 8 then 1 / 10 ^ 8 else m)
           in if m > 1 - 1 / 10 ^ 8 then 1 - 1 / 10 ^ 8 else m)"
    unfolding find_mean_wt_init_def Let_def
    using mean_pipeline[OF assms, where f="\<lambda>r j. d ! (r * cols + j)", unfolded Let_def] .
  also have "\<dots> = max (1 / 10 ^ 8) (min (1 - 1 / 10 ^ 8) ((\<Sum>i<n. d ! (i * cols + ivis)) / real n))"
    by (rule clamp_max_min) simp
  finally show ?thesis .
qed

text \<open>
  Claim C8. For a dataset of \<open>nc > 0\<close> rows, the mean that either routine stores for
  input \<open>ivis < n_inputs\<close> is the arithmetic mean of column \<open>ivis\<close> over all \<open>nc\<close> rows,
  clamped into \<open>[1e-8, 1 - 1e-8]\<close>; so it lies in that interval whatever the column holds.
  (\<open>data_mean\<close> is the caller's work vector, at least \<open>n_inputs\<close> long.)
\<close>

theorem data_mean_clamped:
  fixes nc n_inputs ncols :: nat and data data_mean :: "real list"
  assumes "0 < nc" "ivis < n_inputs" "n_inputs \<le> length data_mean"
  shows "find_mean_wt_init nc n_inputs ncols data data_mean ! ivis
           = max (1 / 10 ^ 8) (min (1 - 1 / 10 ^ 8) ((\<Sum>i<nc. data ! (i * ncols + ivis)) / real nc)) \<and>
         find_mean_rbm nc n_inputs ncols data data_mean ! ivis
           = max (1 / 10 ^ 8) (min (1 - 1 / 10 ^ 8) ((\<Sum>i<nc. data ! (i * ncols + ivis)) / real nc)) \<and>
         1 / 10 ^ 8 \<le> find_mean_wt_init nc n_inputs ncols data data_mean ! ivis \<and>
         find_mean_wt_init nc n_inputs ncols data data_mean ! ivis \<le> 1 - 1 / 10 ^ 8 \<and>
         1 / 10 ^ 8 \<le> find_mean_rbm nc n_inputs ncols data data_mean ! ivis \<and>
         find_mean_rbm nc n_inputs ncols data data_mean ! ivis \<le> 1 - 1 / 10 ^ 8"
  unfolding find_mean_wt_init_nth[OF assms(2,3)] find_mean_rbm_nth[OF assms(2,3)]
  by (simp add: max_def min_def)

theorem data_mean_clamped_witness:
  "(0::nat) < 2 \<and> (0::nat) < 1 \<and> (1::nat) \<le> length [5::real] \<and>
   find_mean_wt_init 2 1 1 [0, 0] [5] ! 0 = 1 / 10 ^ 8 \<and>
   find_mean_rbm 2 1 1 [1, 1] [5] ! 0 = 1 - 1 / 10 ^ 8"
  using data_mean_clamped[where nc=2 and ivis=0 and n_inputs=1 and data_mean="[5]" and ncols=1 and data="[0, 0]"]
        data_mean_clamped[where nc=2 and ivis=0 and n_inputs=1 and data_mean="[5]" and ncols=1 and data="[1, 1]"]
  by (simp add: numeral_2_eq_2)

subsection \<open>The learning rate\<close>

lemma adapt_range:
  "1 / 1000 \<le> learning_rate (adapt d s) \<and> learning_rate (adapt d s) \<le> 1"
  by (simp add: adapt_def Let_def)

lemma adapt_momentum:
  "momentum (adapt d s) = (if \<bar>d\<bar> > 0.3 then momentum s / 1.5 else momentum s)"
  by (simp add: adapt_def Let_def)

lemma gradient_step_range:
  assumes "gradient_step E P e b s = Normal s'" "e \<noteq> 0 \<or> b \<noteq> 0"
  shows "1 / 1000 \<le> learning_rate s' \<and> learning_rate s' \<le> 1"
  using assms adapt_range
  by (auto simp: gradient_step_def Let_def split: prod.splits if_splits)

lemma gradient_step_first:
  assumes "gradient_step E P 0 0 s = Normal s'"
  shows "rate_part s' = rate_part s"
  using assms by (auto simp: gradient_step_def split: prod.splits if_splits)

lemma rbm_batch_NormalD:
  assumes "rbm_batch E P e b s = Normal s'"
  shows "\<exists>s1 s2 wld. batch_update E P (batch_size (nc P) (n_batches P) (n_done s) b)
                        (istart s + batch_size (nc P) (n_batches P) (n_done s) b) s = Normal s1 \<and>
           epoch_escape_check E e (world s1) = (False, wld) \<and>
           gradient_step E P e b (s1\<lparr>world := wld\<rparr>) = Normal s2 \<and>
           s' = s2\<lparr>n_done := n_done s2 + batch_size (nc P) (n_batches P) (n_done s) b,
                   istart := istart s + batch_size (nc P) (n_batches P) (n_done s) b\<rparr>"
proof -
  let ?nb = "batch_size (nc P) (n_batches P) (n_done s) b"
  have "\<exists>s1. batch_update E P ?nb (istart s + ?nb) s = Normal s1 \<and>
    (case epoch_escape_check E e (world s1) of
              (esc, wld) \<Rightarrow>
                if esc then Break User_Escape (s1\<lparr>world := wld\<rparr>)
                else seq (gradient_step E P e b (s1\<lparr>world := wld\<rparr>)) (\<lambda>s'.
                     Normal (s'\<lparr>n_done := n_done s' + ?nb, istart := istart s + ?nb\<rparr>))) = Normal s'"
    using assms unfolding rbm_batch_def Let_def seq_eq_Normal .
  then obtain s1 where 1: "batch_update E P ?nb (istart s + ?nb) s = Normal s1"
    and 2: "(case epoch_escape_check E e (world s1) of
              (esc, wld) \<Rightarrow>
                if esc then Break User_Escape (s1\<lparr>world := wld\<rparr>)
                else seq (gradient_step E P e b (s1\<lparr>world := wld\<rparr>)) (\<lambda>s'.
                     Normal (s'\<lparr>n_done := n_done s' + ?nb, istart := istart s + ?nb\<rparr>))) = Normal s'"
    by (elim exE conjE)
  obtain esc wld where 3: "epoch_escape_check E e (world s1) = (esc, wld)"
    by (cases "epoch_escape_check E e (world s1)")
  from 2 3 have 4: "\<not> esc" by (auto split: if_splits)
  from 2 3 4 obtain s2 where 5: "gradient_step E P e b (s1\<lparr>world := wld\<rparr>) = Normal s2"
    and 6: "s' = s2\<lparr>n_done := n_done s2 + ?nb, istart := istart s + ?nb\<rparr>"
    by (auto simp: seq_eq_Normal)
  show ?thesis
    using 1 3 4 5 6 by (intro exI[of _ s1] exI[of _ s2] exI[of _ wld]) simp
qed

lemma rate_part_eqD: "rate_part s' = rate_part s \<Longrightarrow> learning_rate s' = learning_rate s \<and> momentum s' = momentum s"
  by (simp add: rate_part_def)

lemma rbm_batch_range:
  assumes "rbm_batch E P e b s = Normal s'" "e \<noteq> 0 \<or> b \<noteq> 0"
  shows "1 / 1000 \<le> learning_rate s' \<and> learning_rate s' \<le> 1"
  using rbm_batch_NormalD[OF assms(1)] gradient_step_range[OF _ assms(2)] by fastforce

lemma rbm_batch_first:
  assumes "rbm_batch E P 0 0 s = Normal s'"
  shows "learning_rate s' = learning_rate s"
proof -
  from rbm_batch_NormalD[OF assms] obtain s1 s2 wld where
    1: "batch_update E P (batch_size (nc P) (n_batches P) (n_done s) 0)
          (istart s + batch_size (nc P) (n_batches P) (n_done s) 0) s = Normal s1"
    and 2: "gradient_step E P 0 0 (s1\<lparr>world := wld\<rparr>) = Normal s2"
    and 3: "s' = s2\<lparr>n_done := n_done s2 + batch_size (nc P) (n_batches P) (n_done s) 0,
                   istart := istart s + batch_size (nc P) (n_batches P) (n_done s) 0\<rparr>"
    by blast
  have "rate_part s1 = rate_part s"
    using batch_update_parts(2)[of E P _ _ s] 1 by (metis final.simps(1))
  moreover have "rate_part s2 = rate_part s1"
    using gradient_step_first[OF 2] by simp
  ultimately show ?thesis using 3 by (simp add: rate_part_def)
qed

lemma anneal_range:
  assumes "1 / 1000 \<le> learning_rate s" "learning_rate s \<le> 1"
  shows "1 / 1000 \<le> learning_rate (anneal P s) \<and> learning_rate (anneal P s) \<le> 1"
  using assms by (simp add: anneal_def Let_def)

lemma cap_fields:
  "momentum (if c then s\<lparr>learning_rate := x\<rparr> else s) = momentum s"
  "chain_length (if c then s\<lparr>learning_rate := x\<rparr> else s) = chain_length s"
  "n_no_improvement (if c then s\<lparr>learning_rate := x\<rparr> else s) = n_no_improvement s"
  "best_crit (if c then s\<lparr>learning_rate := x\<rparr> else s) = best_crit s"
  "most_recent_correct_error (if c then s\<lparr>learning_rate := x\<rparr> else s)
     = most_recent_correct_error s"
  "randnum (if c then s\<lparr>learning_rate := x\<rparr> else s) = randnum s"
  by simp_all

lemma anneal_fields:
  "momentum (anneal P s) = 0.99 * momentum s + 0.01 * end_momentum P"
  "chain_length (anneal P s) = chain_update (n_chain_rate P) (n_chain_end P) (chain_length s)"
  "n_no_improvement (anneal P s) = n_no_improvement s"
  "best_crit (anneal P s) = best_crit s"
  "most_recent_correct_error (anneal P s) = most_recent_correct_error s"
  "randnum (anneal P s) = randnum s"
  by (simp_all add: anneal_def Let_def cap_fields split del: if_split)

lemma convergence_tests_range:
  assumes "1 / 1000 \<le> learning_rate s" "learning_rate s \<le> 1"
  shows "1 / 1000 \<le> learning_rate (final (convergence_tests P e s)) \<and>
         learning_rate (final (convergence_tests P e s)) \<le> 1"
  using assms anneal_range[of "s\<lparr>best_crit := max_inc s / max_weight s, n_no_improvement := 0\<rparr>" P]
    anneal_range[of "s\<lparr>n_no_improvement := n_no_improvement s + 1\<rparr>" P]
  by (simp add: convergence_tests_def Let_def)

lemma epoch_summary_rate [simp]: "rate_part (final (epoch_summary E P e s)) = rate_part s"
  by (simp add: epoch_summary_def Let_def rate_part_def split: prod.splits)

subsection \<open>The stream along the run\<close>

lemma on_stream_seq [simp]:
  "(\<And>s. on_stream s \<Longrightarrow> on_stream (final (f s))) \<Longrightarrow> on_stream (final m) \<Longrightarrow>
   on_stream (final (seq m f))"
  by (cases m) auto

lemma on_stream_for_loop [simp]:
  "(\<And>i s. on_stream s \<Longrightarrow> on_stream (final (body i s))) \<Longrightarrow> on_stream s \<Longrightarrow>
   on_stream (final (for_loop body xs s))"
  by (induction xs arbitrary: s) auto

lemma on_stream_stream_part: "stream_part s' = stream_part s \<Longrightarrow> on_stream s' = on_stream s"
  by (simp add: stream_part_def on_stream_def)

lemma on_stream_upd [simp]:
  "on_stream (s\<lparr>world := a\<rparr>) = on_stream s"
  "on_stream (s\<lparr>k := b\<rparr>) = on_stream s"
  "on_stream (s\<lparr>err_vec := d\<rparr>) = on_stream s"
  "on_stream (s\<lparr>error := e\<rparr>) = on_stream s"
  "on_stream (s\<lparr>max_inc := f\<rparr>) = on_stream s"
  "on_stream (s\<lparr>n_done := g\<rparr>) = on_stream s"
  "on_stream (s\<lparr>istart := h\<rparr>) = on_stream s"
  "on_stream (s\<lparr>len_prev := i\<rparr>) = on_stream s"
  "on_stream (s\<lparr>shuffle_index := j\<rparr>) = on_stream s"
  "on_stream (s\<lparr>learning_rate := l\<rparr>) = on_stream s"
  "on_stream (s\<lparr>momentum := m\<rparr>) = on_stream s"
  "on_stream (s\<lparr>best_err := x1\<rparr>) = on_stream s"
  "on_stream (s\<lparr>max_weight := x2\<rparr>) = on_stream s"
  "on_stream (s\<lparr>most_recent_correct_error := x3\<rparr>) = on_stream s"
  "on_stream (s\<lparr>best_crit := x4\<rparr>) = on_stream s"
  "on_stream (s\<lparr>n_no_improvement := x5\<rparr>) = on_stream s"
  "on_stream (s\<lparr>chain_length := x6\<rparr>) = on_stream s"
  "on_stream (s\<lparr>data_mean := x7\<rparr>) = on_stream s"
  by (simp_all add: on_stream_def)

lemma on_stream_call [simp]: "on_stream (final (call f s)) = on_stream s"
  by (rule on_stream_stream_part) simp

lemma on_stream_advance [simp]: "on_stream s \<Longrightarrow> on_stream (advance s)"
proof -
  assume "on_stream s"
  then obtain m where "randnum s = lcg_stream m" by (auto simp: on_stream_def)
  then have "randnum (advance s) = lcg_stream (Suc m)"
    by (simp add: advance_def split: prod.splits)
  then show ?thesis unfolding on_stream_def by blast
qed

lemma on_stream_pre_fetch [simp]: "on_stream s \<Longrightarrow> on_stream (pre_fetch P s)"
  by (simp add: pre_fetch_def)

lemma on_stream_cumulate_error [simp]: "on_stream (cumulate_error n s) = on_stream s"
  by (rule on_stream_stream_part) simp

lemma on_stream_chain_step [simp]:
  "on_stream s \<Longrightarrow> on_stream (final (chain_step E P n i s))"
  unfolding chain_step_def Let_def
  by (simp add: final_if split: prod.splits)

lemma on_stream_batch_update [simp]:
  "on_stream s \<Longrightarrow> on_stream (final (batch_update E P n i s))"
  unfolding batch_update_def Let_def
  by (simp add: final_if split: prod.splits)

lemma on_stream_gradient_step [simp]:
  "on_stream (final (gradient_step E P e b s)) = on_stream s"
  by (rule on_stream_stream_part) simp

lemma on_stream_rbm_batch [simp]:
  "on_stream s \<Longrightarrow> on_stream (final (rbm_batch E P e b s))"
  unfolding rbm_batch_def Let_def
  by (simp add: final_if split: prod.splits)

lemma on_stream_shuffle [simp]: "on_stream (shuffle E i s) = on_stream s"
  by (simp add: on_stream_def)

lemma on_stream_epoch_batches [simp]:
  "on_stream s \<Longrightarrow> on_stream (final (epoch_batches E P e s))"
  unfolding epoch_batches_def epoch_begin_def Let_def seq_assoc
  by simp

lemma on_stream_epoch_summary [simp]:
  "on_stream (final (epoch_summary E P e s)) = on_stream s"
  unfolding epoch_summary_def Let_def
  by (simp add: final_if split: prod.splits)

lemma on_stream_anneal [simp]: "on_stream (anneal P s) = on_stream s"
  by (simp add: on_stream_def anneal_fields)

lemma on_stream_convergence_tests [simp]:
  "on_stream (final (convergence_tests P e s)) = on_stream s"
  unfolding convergence_tests_def Let_def
  by (simp add: final_if)

lemma on_stream_epoch_measure [simp]:
  "on_stream s \<Longrightarrow> on_stream (final (epoch_measure E P e s))"
  using on_stream_epoch_batches[of s E P e]
  by (cases "epoch_batches E P e s") (simp_all add: epoch_measure_def)

lemma on_stream_rbm_epoch [simp]:
  "on_stream s \<Longrightarrow> on_stream (final (rbm_epoch E P e s))"
  by (simp add: rbm_epoch_def)

lemma rbm_setup_randnum: "randnum (final (rbm_setup E P s)) = 1"
  by (simp add: rbm_setup_def Let_def final_if split: prod.splits)

lemma on_stream_rbm_epochs: "on_stream (final (rbm_epochs E P n s))"
proof -
  have "on_stream (final (rbm_setup E P s))"
    unfolding on_stream_def using rbm_setup_randnum[of E P s] by (intro exI[of _ 0]) simp
  then show ?thesis by (simp add: rbm_epochs_def)
qed

lemma rbm_finish_randnum: "randnum (snd (rbm_finish E P s)) = randnum s"
  by (simp add: rbm_finish_def Let_def split: prod.splits)

lemma on_stream_rbm_cuda: "on_stream (snd (rbm_cuda E P s))"
  using on_stream_rbm_epochs[of E P "max_epochs P" s]
  by (cases "rbm_epochs E P (max_epochs P) s")
     (simp_all add: rbm_cuda_def on_stream_def rbm_finish_randnum)

lemma on_streamD:
  assumes "on_stream s"
  shows "\<exists>m. randnum s = 16807 ^ m mod 2147483647"
    and "1 \<le> randnum s" and "randnum s \<le> 2147483646"
  using assms lcg_stream_closed_form lcg_stream_range by (auto simp: on_stream_def)

lemma advance_fields:
  assumes "1 \<le> randnum s" "randnum s \<le> 2147483646"
  shows "randnum (advance s) = (16807 * randnum s) mod 2147483647"
    and "k (advance s) = Some (randnum s div 127773)"
  using assms by (simp_all add: advance_def lcg_advance_eval)

text \<open>
  Claim C9. \<open>rbm_cuda\<close> sets the stream to the seed \<open>1\<close> before anything else. For
  every state \<open>x\<close> of the stream in \<open>[1, 2147483646]\<close> an advance leaves
  \<open>(16807 * x) mod 2147483647\<close> in \<open>randnum\<close>, computed without 32-bit overflow, and
  \<open>x / 127773\<close> in \<open>k\<close>, and the new state is again in \<open>[1, 2147483646]\<close>. So wherever
  the run stands after \<open>n\<close> epochs or stops before, and when \<open>rbm_cuda\<close> returns, the
  state is \<open>16807 ^ m mod 2147483647\<close> for the number \<open>m\<close> of advances made, whatever
  the engine and the data are, and it is in \<open>[1, 2147483646]\<close>, never zero.
\<close>

theorem lcg_park_miller:
  "randnum (final (rbm_setup E P s)) = 1 \<and>
   (1 \<le> randnum st \<and> randnum st \<le> 2147483646 \<longrightarrow>
      randnum (advance st) = (16807 * randnum st) mod 2147483647 \<and>
      k (advance st) = Some (randnum st div 127773) \<and>
      1 \<le> randnum (advance st) \<and> randnum (advance st) \<le> 2147483646) \<and>
   (\<exists>m. randnum (final (rbm_epochs E P n s)) = 16807 ^ m mod 2147483647) \<and>
   1 \<le> randnum (final (rbm_epochs E P n s)) \<and>
   randnum (final (rbm_epochs E P n s)) \<le> 2147483646 \<and>
   (\<exists>m. randnum (snd (rbm_cuda E P s)) = 16807 ^ m mod 2147483647) \<and>
   1 \<le> randnum (snd (rbm_cuda E P s)) \<and>
   randnum (snd (rbm_cuda E P s)) \<le> 2147483646"
proof (intro conjI impI)
  show "randnum (final (rbm_setup E P s)) = 1" by (rule rbm_setup_randnum)
next
  assume st: "1 \<le> randnum st \<and> randnum st \<le> 2147483646"
  then show "randnum (advance st) = (16807 * randnum st) mod 2147483647"
    and "k (advance st) = Some (randnum st div 127773)"
    by (simp_all add: advance_fields)
  have "randnum (advance st) = snd (lcg_advance (randnum st))"
    by (simp add: advance_def split: prod.splits)
  with st lcg_advance_range[of "randnum st"]
  show "1 \<le> randnum (advance st)" and "randnum (advance st) \<le> 2147483646" by simp_all
next
  show "\<exists>m. randnum (final (rbm_epochs E P n s)) = 16807 ^ m mod 2147483647"
    and "1 \<le> randnum (final (rbm_epochs E P n s))"
    and "randnum (final (rbm_epochs E P n s)) \<le> 2147483646"
    using on_streamD[OF on_stream_rbm_epochs[of E P n s]] by simp_all
next
  show "\<exists>m. randnum (snd (rbm_cuda E P s)) = 16807 ^ m mod 2147483647"
    and "1 \<le> randnum (snd (rbm_cuda E P s))"
    and "randnum (snd (rbm_cuda E P s)) \<le> 2147483646"
    using on_streamD[OF on_stream_rbm_cuda[of E P s]] by simp_all
qed

theorem lcg_park_miller_witness:
  "1 \<le> randnum stub_b0 \<and> randnum stub_b0 \<le> 2147483646 \<and>
   randnum (advance stub_b0) = 1144108930 \<and> k (advance stub_b0) = Some 7708 \<and>
   randnum (final (rbm_setup stub stub_params stub_vars)) = 1"
  using lcg_park_miller[of stub stub_params stub_vars stub_b0 0]
  by (simp add: stub_b0_def stub_s0_def stub_vars_def)

subsection \<open>Epochs\<close>

lemma rbm_epochs_0: "rbm_epochs E P 0 s = rbm_setup E P s"
  by (cases "rbm_setup E P s") (simp_all add: rbm_epochs_def)

lemma rbm_epochs_Suc: "rbm_epochs E P (Suc n) s = seq (rbm_epochs E P n s) (rbm_epoch E P n)"
proof -
  have "for_loop (rbm_epoch E P) [0..<Suc n]
        = (\<lambda>s. seq (for_loop (rbm_epoch E P) [0..<n] s) (rbm_epoch E P n))"
    by (rule ext) (rule for_loop_Suc)
  then show ?thesis by (simp only: rbm_epochs_def seq_assoc)
qed

lemma epoch_part_eqD:
  "epoch_part s' = epoch_part s \<Longrightarrow>
   chain_length s' = chain_length s \<and> n_no_improvement s' = n_no_improvement s \<and>
   best_crit s' = best_crit s \<and> max_weight s' = max_weight s \<and>
   most_recent_correct_error s' = most_recent_correct_error s"
  by (simp add: epoch_part_def)

lemma epoch_summary_keeps:
  "chain_length (final (epoch_summary E P e s)) = chain_length s"
  "n_no_improvement (final (epoch_summary E P e s)) = n_no_improvement s"
  "best_crit (final (epoch_summary E P e s)) = best_crit s"
  by (simp_all add: epoch_summary_def Let_def split: prod.splits)

lemma epoch_measure_keeps:
  "chain_length (final (epoch_measure E P e s)) = chain_length s"
  "n_no_improvement (final (epoch_measure E P e s)) = n_no_improvement s"
  "best_crit (final (epoch_measure E P e s)) = best_crit s"
  using epoch_part_eqD[OF epoch_batches_epoch_part[of E P e s]]
  by (cases "epoch_batches E P e s"; simp add: epoch_measure_def epoch_summary_keeps)+

lemma convergence_tests_NormalD:
  assumes "convergence_tests P e s = Normal s'"
  shows "momentum s' = 0.99 * momentum s + 0.01 * end_momentum P"
    and "chain_length s' = chain_update (n_chain_rate P) (n_chain_end P) (chain_length s)"
    and "most_recent_correct_error s' = most_recent_correct_error s"
  using assms by (auto simp: convergence_tests_def Let_def anneal_fields split: if_splits)

lemma convergence_tests_BreakD:
  assumes "convergence_tests P e s = Break b s'"
  shows "momentum s' = momentum s" "chain_length s' = chain_length s"
    "most_recent_correct_error s' = most_recent_correct_error s" "b \<noteq> User_Escape"
  using assms by (auto simp: convergence_tests_def Let_def split: if_splits)

lemma seq_eq_Break:
  "seq m f = Break b s' \<longleftrightarrow> m = Break b s' \<or> (\<exists>s1. m = Normal s1 \<and> f s1 = Break b s')"
  by (cases m) auto

lemma epoch_summary_Break: "epoch_summary E P e s = Break b s' \<Longrightarrow> b = User_Escape"
  by (auto simp: epoch_summary_def Let_def split: prod.splits if_splits)

lemma call_no_Break [simp]: "call f s \<noteq> Break b s'"
  by (simp add: call_def split: prod.splits)

lemma for_loop_Break:
  assumes "for_loop body xs s = Break b s'"
  shows "\<exists>i s1. i \<in> set xs \<and> body i s1 = Break b s'"
  using assms
proof (induction xs arbitrary: s)
  case Nil
  then show ?case by simp
next
  case (Cons i xs)
  show ?case
  proof (cases "body i s")
    case (Normal s1)
    with Cons.prems have "for_loop body xs s1 = Break b s'" by simp
    from Cons.IH[OF this] show ?thesis by auto
  next
    case (Break b1 s1)
    with Cons.prems have "body i s = Break b s'" by simp
    then show ?thesis by auto
  next
    case (Return r s1)
    with Cons.prems show ?thesis by simp
  qed
qed

lemma for_loop_no_Break:
  assumes "\<And>i s b s'. body i s \<noteq> Break b s'"
  shows "for_loop body xs s \<noteq> Break b s'"
  using for_loop_Break[of body xs s b s'] assms by blast

lemma chain_step_no_Break: "chain_step E P n i s \<noteq> Break b s'"
  by (auto simp: chain_step_def Let_def seq_eq_Break split: prod.splits if_splits)

lemma batch_update_no_Break: "batch_update E P n i s \<noteq> Break b s'"
  by (auto simp: batch_update_def Let_def seq_eq_Break for_loop_no_Break[OF chain_step_no_Break]
      split: prod.splits if_splits)

lemma gradient_step_no_Break: "gradient_step E P e i s \<noteq> Break b s'"
  by (auto simp: gradient_step_def Let_def split: prod.splits if_splits)

lemma epoch_escape_check_first [simp]: "epoch_escape_check E 0 wld = (False, wld)"
  by (simp add: epoch_escape_check_def)

lemma rbm_batch_BreakD:
  assumes "rbm_batch E P e i s = Break b s'"
  shows "b = User_Escape \<and> e \<noteq> 0 \<and>
         (\<exists>s1 wld. epoch_escape_check E e (world s1) = (True, wld) \<and> s' = s1\<lparr>world := wld\<rparr>)"
proof -
  let ?nb = "batch_size (nc P) (n_batches P) (n_done s) i"
  have "\<exists>s1. batch_update E P ?nb (istart s + ?nb) s = Normal s1 \<and>
    (case epoch_escape_check E e (world s1) of
              (esc, wld) \<Rightarrow>
                if esc then Break User_Escape (s1\<lparr>world := wld\<rparr>)
                else seq (gradient_step E P e i (s1\<lparr>world := wld\<rparr>)) (\<lambda>s'.
                     Normal (s'\<lparr>n_done := n_done s' + ?nb, istart := istart s + ?nb\<rparr>))) = Break b s'"
    using assms unfolding rbm_batch_def Let_def seq_eq_Break
    by (simp add: batch_update_no_Break)
  then obtain s1 where
    2: "(case epoch_escape_check E e (world s1) of
              (esc, wld) \<Rightarrow>
                if esc then Break User_Escape (s1\<lparr>world := wld\<rparr>)
                else seq (gradient_step E P e i (s1\<lparr>world := wld\<rparr>)) (\<lambda>s'.
                     Normal (s'\<lparr>n_done := n_done s' + ?nb, istart := istart s + ?nb\<rparr>))) = Break b s'"
    by (elim exE conjE)
  obtain esc wld where 3: "epoch_escape_check E e (world s1) = (esc, wld)"
    by (cases "epoch_escape_check E e (world s1)")
  have 4: "esc"
    using 2 3 by (cases esc) (auto simp: seq_eq_Break gradient_step_no_Break)
  have 5: "e \<noteq> 0" using 3 4 by (cases "e = 0") auto
  show ?thesis using 2 3 4 5 by auto
qed

lemma rbm_batch_Break: "rbm_batch E P e i s = Break b s' \<Longrightarrow> b = User_Escape"
  using rbm_batch_BreakD by blast

lemma epoch_batches_Break: "epoch_batches E P e s = Break b s' \<Longrightarrow> b = User_Escape"
  by (auto simp: epoch_batches_def epoch_begin_def seq_assoc Let_def seq_eq_Break
      dest!: for_loop_Break rbm_batch_Break)

lemma epoch_measure_Break: "epoch_measure E P e s = Break b s' \<Longrightarrow> b = User_Escape"
  by (cases "epoch_batches E P e s") (auto simp: epoch_measure_def dest: epoch_summary_Break)

lemma rbm_epochs_Break_mono:
  assumes "rbm_epochs E P n s = Break b st" "n \<le> n'"
  shows "rbm_epochs E P n' s = Break b st"
proof -
  have "[0..<n'] = [0..<n] @ [n..<n']"
    using assms(2) by (metis le_add_diff_inverse upt_add_eq_append zero_le)
  then have "rbm_epochs E P n' s = seq (rbm_epochs E P n s) (for_loop (rbm_epoch E P) [n..<n'])"
  proof -
    assume eq: "[0..<n'] = [0..<n] @ [n..<n']"
    have "for_loop (rbm_epoch E P) [0..<n']
          = (\<lambda>s. seq (for_loop (rbm_epoch E P) [0..<n] s) (for_loop (rbm_epoch E P) [n..<n']))"
      unfolding eq by (rule ext) (rule for_loop_append)
    then show ?thesis by (simp only: rbm_epochs_def seq_assoc)
  qed
  then show ?thesis using assms(1) by simp
qed

text \<open>A poll that leaves the flag set whenever it reports the key makes every test
  that reports be followed by one that reports.\<close>

lemma escape_check_latched:
  assumes latch: "\<And>wld r wld'. user_pressed_escape E wld = (r, wld') \<Longrightarrow> r \<noteq> 0 \<Longrightarrow>
                    escape_key_pressed E wld' \<noteq> 0"
    and "escape_check E wld = (True, wld')"
  shows "fst (escape_check E wld')"
proof -
  from assms(2) latch have "escape_key_pressed E wld' \<noteq> 0"
    by (auto simp: escape_check_def split: if_splits prod.splits)
  then show ?thesis by (simp add: escape_check_def)
qed

lemma escape_check_flag:
  "escape_key_pressed E wld \<noteq> 0 \<Longrightarrow> escape_check E wld = (True, wld)"
  by (simp add: escape_check_def)

lemma epoch_batches_BreakD:
  assumes "epoch_batches E P e s = Break b s'"
  shows "b = User_Escape \<and> e \<noteq> 0 \<and>
         (\<exists>s1 wld. epoch_escape_check E e (world s1) = (True, wld) \<and> s' = s1\<lparr>world := wld\<rparr>)"
proof -
  from assms obtain s0 where "for_loop (rbm_batch E P e) [0..<n_batches P] s0 = Break b s'"
    by (auto simp: epoch_batches_def epoch_begin_def seq_assoc Let_def seq_eq_Break)
  from for_loop_Break[OF this] obtain i s1 where "rbm_batch E P e i s1 = Break b s'" by blast
  from rbm_batch_BreakD[OF this] show ?thesis .
qed

lemma epoch_batches_Break_seen:
  assumes persist: "\<And>wld wld'. escape_check E wld = (True, wld') \<Longrightarrow> fst (escape_check E wld')"
    and "epoch_batches E P e s = Break b s'"
  shows "e \<noteq> 0 \<and> fst (escape_check E (world s'))"
proof -
  from epoch_batches_BreakD[OF assms(2)] obtain s1 wld where
    e: "e \<noteq> 0" and c: "epoch_escape_check E e (world s1) = (True, wld)" and s': "s' = s1\<lparr>world := wld\<rparr>"
    by blast
  from c e have "escape_check E (world s1) = (True, wld)" by (simp add: epoch_escape_check_def)
  from persist[OF this] s' e show ?thesis by simp
qed

lemma epoch_summary_seen:
  assumes "e \<noteq> 0" "fst (escape_check E (world s))"
  shows "epoch_summary E P e s
         = Break User_Escape (s\<lparr>world := escape_reset E (snd (escape_check E (world s)))\<rparr>)"
  using assms
  by (cases "escape_check E (world s)") (simp add: epoch_summary_def epoch_escape_check_def)

lemma epoch_summary_NormalD:
  assumes "epoch_summary E P e s = Normal st"
  shows "most_recent_correct_error st
         = Some (error s / real_of_int (wrap32 (int (nc P) * int (n_inputs P))))"
  using assms by (auto simp: epoch_summary_def Let_def split: prod.splits if_splits)

lemma epoch_summary_first_no_Break: "epoch_summary E P 0 s \<noteq> Break b s'"
  by (auto simp: epoch_summary_def Let_def split: prod.splits if_splits)

lemma epoch_measure_first_no_Break: "epoch_measure E P 0 s \<noteq> Break b s'"
proof (cases "epoch_batches E P 0 s")
  case (Normal t)
  then show ?thesis by (simp add: epoch_measure_def epoch_summary_first_no_Break)
next
  case (Break c t)
  then show ?thesis using epoch_batches_BreakD[OF Break] by simp
next
  case (Return r t)
  then show ?thesis by (simp add: epoch_measure_def)
qed

lemma rbm_epochs_Suc_NormalD:
  assumes "rbm_epochs E P (Suc n) s = Normal s'"
  shows "\<exists>sn. rbm_epochs E P n s = Normal sn \<and> rbm_epoch E P n sn = Normal s'"
  using assms by (simp add: rbm_epochs_Suc seq_eq_Normal)

lemma rbm_epoch_NormalD:
  assumes "rbm_epoch E P e s = Normal s'"
  shows "\<exists>st. epoch_measure E P e s = Normal st \<and> convergence_tests P e st = Normal s'"
  using assms by (simp add: rbm_epoch_def seq_eq_Normal)

lemma rbm_epoch_chain_length:
  assumes "rbm_epoch E P e s = Normal s'"
  shows "chain_length s' = chain_update (n_chain_rate P) (n_chain_end P) (chain_length s)"
proof -
  from rbm_epoch_NormalD[OF assms] obtain st where st: "epoch_measure E P e s = Normal st"
    and ct: "convergence_tests P e st = Normal s'" by blast
  show ?thesis
    using convergence_tests_NormalD(2)[OF ct] epoch_measure_keeps(1)[of E P e s] st by simp
qed

lemma rbm_setup_NormalD:
  assumes "rbm_setup E P s = Normal s0"
  shows "chain_length s0 = real_of_int (n_chain_start P)" "momentum s0 = start_momentum P"
    "n_no_improvement s0 = 0" "randnum s0 = 1" "k s0 = None"
    "most_recent_correct_error s0 = None" "learning_rate s0 = learning_rate s"
  using assms by (auto simp: rbm_setup_def Let_def split: prod.splits if_splits)

text \<open>The chain length on entry to epoch \<open>n\<close>.\<close>

lemma chain_length_iter:
  assumes "rbm_epochs E P n s = Normal sn"
  shows "chain_length sn
         = (chain_update (n_chain_rate P) (n_chain_end P) ^^ n) (real_of_int (n_chain_start P))"
  using assms
proof (induction n arbitrary: sn)
  case 0
  then show ?case by (simp add: rbm_epochs_0 rbm_setup_NormalD(1))
next
  case (Suc n)
  from rbm_epochs_Suc_NormalD[OF Suc.prems] obtain sp where
    sp: "rbm_epochs E P n s = Normal sp" and ep: "rbm_epoch E P n sp = Normal sn" by blast
  show ?case using rbm_epoch_chain_length[OF ep] Suc.IH[OF sp] by simp
qed

lemma convergence_tests_first:
  assumes "convergence_crit P \<le> max_inc st / max_weight st"
  shows "convergence_tests P 0 st
         = Normal (anneal P (st\<lparr>best_crit := max_inc st / max_weight st, n_no_improvement := 0\<rparr>))"
  using assms by (simp add: convergence_tests_def)

lemma convergence_tests_no_improvement:
  assumes "convergence_crit P \<le> max_inc st / max_weight st" "e \<noteq> 0"
    and "best_crit st \<le> max_inc st / max_weight st"
  shows "convergence_tests P e st
         = (if n_no_improvement st + 1 > max_no_imp P
            then Break Stalled (st\<lparr>n_no_improvement := n_no_improvement st + 1\<rparr>)
            else Normal (anneal P (st\<lparr>n_no_improvement := n_no_improvement st + 1\<rparr>)))"
  using assms by (simp add: convergence_tests_def Let_def)

text \<open>The state of the stall counter on entry to epoch \<open>e\<close> when no epoch so far has
  improved on the ratio of epoch 0.\<close>

lemma stall_counter:
  assumes start: "rbm_setup E P s = Normal s0"
    and frame: "\<And>e se. e \<le> K \<Longrightarrow> rbm_epochs E P e s = Normal se \<Longrightarrow>
                  \<exists>st. epoch_measure E P e se = Normal st \<and> max_weight st \<noteq> 0 \<and>
                       convergence_crit P \<le> max_inc st / max_weight st"
    and incr: "\<And>e se st se' st'. Suc e \<le> K \<Longrightarrow>
                  rbm_epochs E P e s = Normal se \<Longrightarrow> epoch_measure E P e se = Normal st \<Longrightarrow>
                  rbm_epochs E P (Suc e) s = Normal se' \<Longrightarrow>
                  epoch_measure E P (Suc e) se' = Normal st' \<Longrightarrow>
                  max_inc st / max_weight st < max_inc st' / max_weight st'"
    and bound: "int K \<le> max_no_imp P + 1"
    and e: "e \<le> K"
  shows "\<exists>se st. rbm_epochs E P e s = Normal se \<and> epoch_measure E P e se = Normal st \<and>
           (0 < e \<longrightarrow> n_no_improvement se = int e - 1 \<and>
                       best_crit se < max_inc st / max_weight st)"
  using e
proof (induction e)
  case 0
  have "rbm_epochs E P 0 s = Normal s0" using start by (simp add: rbm_epochs_0)
  with frame[of 0 s0] show ?case by auto
next
  case (Suc e)
  then have eK: "e \<le> K" and SeK: "Suc e \<le> K" by simp_all
  from Suc.IH[OF eK] obtain se st where se: "rbm_epochs E P e s = Normal se"
    and st: "epoch_measure E P e se = Normal st"
    and inv: "0 < e \<longrightarrow> n_no_improvement se = int e - 1 \<and>
                          best_crit se < max_inc st / max_weight st"
    by blast
  from frame[OF eK se] st have crit: "convergence_crit P \<le> max_inc st / max_weight st"
    by auto
  have keep: "n_no_improvement st = n_no_improvement se" "best_crit st = best_crit se"
    using epoch_measure_keeps(2,3)[of E P e se] st by simp_all
  have "\<exists>se'. rbm_epoch E P e se = Normal se' \<and> n_no_improvement se' = int e \<and>
              best_crit se' \<le> max_inc st / max_weight st"
  proof (cases "e = 0")
    case True
    then show ?thesis
      using st crit by (simp add: rbm_epoch_def convergence_tests_first anneal_fields)
  next
    case False
    with inv have n: "n_no_improvement se = int e - 1"
      and b: "best_crit se < max_inc st / max_weight st" by simp_all
    have "\<not> n_no_improvement st + 1 > max_no_imp P"
      using n keep(1) SeK bound by simp
    then show ?thesis
      using st crit b n keep False
      by (simp add: rbm_epoch_def convergence_tests_no_improvement anneal_fields)
  qed
  then obtain se' where ep: "rbm_epoch E P e se = Normal se'"
    and n': "n_no_improvement se' = int e"
    and b': "best_crit se' \<le> max_inc st / max_weight st" by blast
  have se': "rbm_epochs E P (Suc e) s = Normal se'"
    using se ep by (simp add: rbm_epochs_Suc)
  from frame[OF SeK se'] obtain st' where st': "epoch_measure E P (Suc e) se' = Normal st'"
    by blast
  from incr[OF SeK se st se' st'] b' n' se' st'
  show ?case by (intro exI[of _ se'] exI[of _ st']) simp
qed

text \<open>Only the stall test reads \<open>max_no_imp\<close>.\<close>

lemma max_no_imp_irrelevant:
  "chain_step E (P\<lparr>max_no_imp := x\<rparr>) = chain_step E P"
  "gradient_step E (P\<lparr>max_no_imp := x\<rparr>) = gradient_step E P"
  "pre_fetch (P\<lparr>max_no_imp := x\<rparr>) = pre_fetch P"
  "epoch_summary E (P\<lparr>max_no_imp := x\<rparr>) = epoch_summary E P"
  "rbm_setup E (P\<lparr>max_no_imp := x\<rparr>) = rbm_setup E P"
  by (intro ext, simp add: chain_step_def gradient_step_def pre_fetch_def epoch_summary_def
      rbm_setup_def cong: if_cong)+

lemma max_no_imp_irrelevant2:
  "batch_update E (P\<lparr>max_no_imp := x\<rparr>) = batch_update E P"
  by (intro ext, simp add: batch_update_def max_no_imp_irrelevant cong: if_cong)

lemma max_no_imp_irrelevant3:
  "rbm_batch E (P\<lparr>max_no_imp := x\<rparr>) = rbm_batch E P"
  by (intro ext, simp add: rbm_batch_def max_no_imp_irrelevant max_no_imp_irrelevant2 cong: if_cong)

lemma max_no_imp_irrelevant4:
  "epoch_batches E (P\<lparr>max_no_imp := x\<rparr>) = epoch_batches E P"
  by (intro ext, simp add: epoch_batches_def epoch_begin_def max_no_imp_irrelevant3
      cong: if_cong)

lemma max_no_imp_irrelevant5:
  "epoch_measure E (P\<lparr>max_no_imp := x\<rparr>) = epoch_measure E P"
  by (intro ext, simp add: epoch_measure_def max_no_imp_irrelevant4 max_no_imp_irrelevant
      cong: ctl.case_cong)


subsection \<open>The run on the stub\<close>

lemma stub_fields [simp]:
  "ERROR_INSUFFICIENT_MEMORY stub = 1"
  "ERROR_CUDA_MEMORY stub = 2"
  "ERROR_CUDA_ERROR stub = 3"
  "rbm_cuda_init stub = (\<lambda>_ _ _ _ _ _ _ _ _ _ _ _ wld. (0, wld))"
  "rbm_cuda_cleanup stub = (\<lambda>wld. wld)"
  "cuda_shuffle_to_device stub = (\<lambda>_ _ wld. (0, wld))"
  "cuda_params_to_device stub = (\<lambda>_ _ _ _ _ wld. (0, wld\<lparr>trials := trials wld + 1\<rparr>))"
  "cuda_params_from_device stub = (\<lambda>_ _ wld. (0, ([], [], []), wld))"
  "cuda_fetch_vis1 stub = (\<lambda>_ _ _ seed wld. (0, wld\<lparr>seeds := seeds wld @ [seed]\<rparr>))"
  "cuda_vis_to_hid stub = (\<lambda>_ _ wld. (0, wld))"
  "cuda_hid_to_vis_direct stub = (\<lambda>_ _ wld. (0, wld))"
  "cuda_sample_hidden2 stub = (\<lambda>_ _ _ wld. (0, wld))"
  "cuda_hid_to_vis stub = (\<lambda>_ _ _ wld. (0, wld))"
  "cuda_vis2_to_hid2 stub = (\<lambda>_ _ wld. (0, wld))"
  "cuda_recon_error stub = (\<lambda>_ _ ev wld. (0, [if trials wld = 2 then 1 else 2 + real (queries wld)], wld))"
  "cuda_update_in_bias stub = (\<lambda>_ _ _ _ wld. (0, wld))"
  "cuda_update_hid_bias stub = (\<lambda>_ _ _ _ _ _ _ wld. (0, wld))"
  "cuda_update_weights stub = (\<lambda>_ _ _ _ _ _ _ _ wld. (0, wld))"
  "cuda_transpose stub = (\<lambda>_ _ wld. (0, wld))"
  "cuda_max_inc_w stub = (\<lambda>_ normalize wld. if normalize = 1 then (0, real (queries wld) + 1, wld) else (0, 1, wld\<lparr>queries := queries wld + 1\<rparr>))"
  "cuda_len_dot stub = (\<lambda>_ wld. (0, 1, 1, wld))"
  "unifrand_fast stub = (\<lambda>wld. (0, wld))"
  "user_pressed_escape stub = (\<lambda>wld. if polls wld \<ge> 2 then (1, wld\<lparr>flag := 1, polls := polls wld + 1\<rparr>) else (0, wld\<lparr>polls := polls wld + 1\<rparr>))"
  "escape_key_pressed stub = flag"
  "set_escape_key_pressed stub = (\<lambda>v wld. wld\<lparr>flag := v\<rparr>)"
  by (simp_all add: stub_def)

lemma stub_params_fields [simp]:
  "nc stub_params = 1"
  "n_inputs stub_params = 1"
  "ncols stub_params = 1"
  "data stub_params = [0]"
  "nhid stub_params = 1"
  "n_rand stub_params = 2"
  "n_batches stub_params = 1"
  "n_chain_start stub_params = 1"
  "n_chain_end stub_params = 3"
  "n_chain_rate stub_params = 1 / 2"
  "mean_field stub_params = 0"
  "greedy_mean_field stub_params = 0"
  "max_epochs stub_params = 3"
  "max_no_imp stub_params = 0"
  "convergence_crit stub_params = 0"
  "start_momentum stub_params = 1 / 2"
  "end_momentum stub_params = 9 / 10"
  "weight_pen stub_params = 0"
  "sparsity_penalty stub_params = 0"
  "sparsity_target stub_params = 0"
  by (simp_all add: stub_params_def)

lemmas stub_eval = model_defs stub_vars_def Let_def find_mean_rbm_def lcg_advance_eval shuffle.simps
  wrap32_def chain_update_half
  stub_s0_def stub_b0_def stub_m0_def stub_s1_def stub_b1_def stub_m1_def

lemma stub_setup: "rbm_setup stub stub_params stub_vars = Normal stub_s0"
  by (simp add: stub_eval)

lemma stub_batches0: "epoch_batches stub stub_params 0 stub_s0 = Normal stub_b0"
  by (simp add: stub_eval)

lemma stub_summary0: "epoch_summary stub stub_params 0 stub_b0 = Normal stub_m0"
  by (simp add: stub_eval)

lemma stub_tests0: "convergence_tests stub_params 0 stub_m0 = Normal stub_s1"
  by (simp add: stub_eval)

lemma stub_batches1: "epoch_batches stub stub_params (Suc 0) stub_s1 = Normal stub_b1"
  by (simp add: stub_eval numeral_2_eq_2)

lemma stub_summary1: "epoch_summary stub stub_params (Suc 0) stub_b1 = Normal stub_m1"
  by (simp add: stub_eval numeral_2_eq_2)

lemma stub_tests1:
  "convergence_tests stub_params (Suc 0) stub_m1 = Break Stalled (stub_m1\<lparr>n_no_improvement := 1\<rparr>)"
  by (simp add: stub_eval)

lemma stub_measure0: "epoch_measure stub stub_params 0 stub_s0 = Normal stub_m0"
  by (simp add: epoch_measure_def stub_batches0 stub_summary0)

lemma stub_measure1: "epoch_measure stub stub_params (Suc 0) stub_s1 = Normal stub_m1"
  by (simp add: epoch_measure_def stub_batches1 stub_summary1)

lemma stub_epoch0: "rbm_epoch stub stub_params 0 stub_s0 = Normal stub_s1"
  by (simp add: rbm_epoch_def stub_measure0 stub_tests0)

lemma stub_epoch1:
  "rbm_epoch stub stub_params (Suc 0) stub_s1 = Break Stalled (stub_m1\<lparr>n_no_improvement := 1\<rparr>)"
  by (simp add: rbm_epoch_def stub_measure1 stub_tests1)

lemma stub_epochs1: "rbm_epochs stub stub_params (Suc 0) stub_vars = Normal stub_s1"
  by (simp add: rbm_epochs_Suc rbm_epochs_0 stub_setup stub_epoch0)

lemma stub_epochs2:
  "rbm_epochs stub stub_params (Suc (Suc 0)) stub_vars = Break Stalled (stub_m1\<lparr>n_no_improvement := 1\<rparr>)"
  by (simp add: rbm_epochs_Suc[of _ _ "Suc 0"] stub_epochs1 stub_epoch1)


lemma long_setup: "rbm_setup stub long_params stub_vars = Normal stub_s0"
  by (simp add: long_params_def max_no_imp_irrelevant stub_setup)

lemma long_measure0: "epoch_measure stub long_params 0 stub_s0 = Normal stub_m0"
  by (simp add: long_params_def max_no_imp_irrelevant5 stub_measure0)

lemma long_measure1: "epoch_measure stub long_params (Suc 0) stub_s1 = Normal stub_m1"
  by (simp add: long_params_def max_no_imp_irrelevant5 stub_measure1)

lemma long_tests0: "convergence_tests long_params 0 stub_m0 = Normal stub_s1"
  by (simp add: stub_eval long_params_def)

lemma long_tests1: "convergence_tests long_params (Suc 0) stub_m1 = Normal stub_s2"
  by (simp add: stub_eval long_params_def stub_s2_def)

lemma long_batches2:
  "epoch_batches stub long_params (Suc (Suc 0)) stub_s2 = Break User_Escape stub_x2"
  unfolding long_params_def max_no_imp_irrelevant4
  by (simp add: stub_eval stub_s2_def stub_x2_def numeral_3_eq_3 numeral_2_eq_2)

lemma long_epochs2: "rbm_epochs stub long_params (Suc (Suc 0)) stub_vars = Normal stub_s2"
  by (simp add: rbm_epochs_Suc rbm_epochs_0 rbm_epoch_def long_setup long_measure0 long_tests0
      long_measure1 long_tests1)

lemma stub_persist: "escape_check stub wld = (True, wld') \<Longrightarrow> fst (escape_check stub wld')"
  by (rule escape_check_latched) (auto split: if_splits)

lemma seq_for_loop_Nil [simp]: "seq m (for_loop body []) = m"
  by (cases m) simp_all

lemma stub_batch0:
  "rbm_batch stub stub_params 0 0 (stub_s0\<lparr>istart := 0, n_done := 0, error := 0, max_inc := 0\<rparr>)
     = Normal stub_b0"
  using stub_batches0
  by (simp add: epoch_batches_def epoch_begin_def seq_assoc shuffle.simps call_def stub_s0_def
      stub_vars_def)

lemma stub_batch1:
  "rbm_batch stub stub_params (Suc 0) 0 (stub_s1\<lparr>istart := 0, n_done := 0, error := 0, max_inc := 0\<rparr>)
     = Normal stub_b1"
  using stub_batches1
  by (simp add: epoch_batches_def epoch_begin_def seq_assoc shuffle.simps call_def stub_s1_def
      stub_m0_def stub_b0_def
      stub_s0_def stub_vars_def)

lemma stub_epochs0: "rbm_epochs stub stub_params 0 stub_vars = Normal stub_s0"
  by (simp add: rbm_epochs_0 stub_setup)

lemma stub_frame:
  assumes "e \<le> nat (max_no_imp stub_params) + 1" "rbm_epochs stub stub_params e stub_vars = Normal se"
  shows "\<exists>st. epoch_measure stub stub_params e se = Normal st \<and> max_weight st \<noteq> 0 \<and>
              convergence_crit stub_params \<le> max_inc st / max_weight st"
proof -
  from assms(1) have "e = 0 \<or> e = Suc 0" by auto
  then show ?thesis
  proof
    assume "e = 0"
    with assms(2) stub_epochs0 have "se = stub_s0" by simp
    then show ?thesis
      using stub_measure0 \<open>e = 0\<close> by (simp add: stub_m0_def stub_b0_def)
  next
    assume "e = Suc 0"
    with assms(2) stub_epochs1 have "se = stub_s1" by simp
    then show ?thesis
      using stub_measure1 \<open>e = Suc 0\<close> by (simp add: stub_m1_def stub_b1_def stub_s1_def stub_m0_def)
  qed
qed

lemma stub_incr:
  assumes "Suc e \<le> nat (max_no_imp stub_params) + 1"
    and "rbm_epochs stub stub_params e stub_vars = Normal se"
    and "epoch_measure stub stub_params e se = Normal st"
    and "rbm_epochs stub stub_params (Suc e) stub_vars = Normal se'"
    and "epoch_measure stub stub_params (Suc e) se' = Normal st'"
  shows "max_inc st / max_weight st < max_inc st' / max_weight st'"
proof -
  from assms(1) have e: "e = 0" by simp
  with assms(2) stub_epochs0 have "se = stub_s0" by simp
  with assms(3) stub_measure0 e have st: "st = stub_m0" by simp
  from assms(4) stub_epochs1 e have "se' = stub_s1" by simp
  with assms(5) stub_measure1 e have st': "st' = stub_m1" by simp
  show ?thesis
    unfolding st st' by (simp add: stub_m1_def stub_b1_def stub_s1_def stub_m0_def stub_b0_def)
qed

text \<open>The run of two batches with the poll that reports once.\<close>

lemma one_shot_fields [simp]:
  "ERROR_INSUFFICIENT_MEMORY one_shot = 1"
  "ERROR_CUDA_MEMORY one_shot = 2"
  "ERROR_CUDA_ERROR one_shot = 3"
  "rbm_cuda_init one_shot = rbm_cuda_init stub"
  "rbm_cuda_cleanup one_shot = rbm_cuda_cleanup stub"
  "cuda_shuffle_to_device one_shot = cuda_shuffle_to_device stub"
  "cuda_params_to_device one_shot = cuda_params_to_device stub"
  "cuda_params_from_device one_shot = cuda_params_from_device stub"
  "cuda_fetch_vis1 one_shot = cuda_fetch_vis1 stub"
  "cuda_vis_to_hid one_shot = cuda_vis_to_hid stub"
  "cuda_hid_to_vis_direct one_shot = cuda_hid_to_vis_direct stub"
  "cuda_sample_hidden2 one_shot = cuda_sample_hidden2 stub"
  "cuda_hid_to_vis one_shot = cuda_hid_to_vis stub"
  "cuda_vis2_to_hid2 one_shot = cuda_vis2_to_hid2 stub"
  "cuda_recon_error one_shot = cuda_recon_error stub"
  "cuda_update_in_bias one_shot = cuda_update_in_bias stub"
  "cuda_update_hid_bias one_shot = cuda_update_hid_bias stub"
  "cuda_update_weights one_shot = cuda_update_weights stub"
  "cuda_transpose one_shot = cuda_transpose stub"
  "cuda_max_inc_w one_shot = cuda_max_inc_w stub"
  "cuda_len_dot one_shot = cuda_len_dot stub"
  "unifrand_fast one_shot = unifrand_fast stub"
  "user_pressed_escape one_shot = (\<lambda>wld. (if polls wld = 3 then 1 else 0, wld\<lparr>polls := polls wld + 1\<rparr>))"
  "escape_key_pressed one_shot = escape_key_pressed stub"
  "set_escape_key_pressed one_shot = set_escape_key_pressed stub"
  by (simp_all add: one_shot_def)

lemmas two_batch_eval = stub_eval two_batch_params_def two_batch_vars_def long_params_def
  numeral_2_eq_2 numeral_3_eq_3 upt_conv_Cons

lemma one_shot_epochs2:
  "rbm_epochs one_shot two_batch_params (Suc (Suc 0)) two_batch_vars = Normal one_shot_s2"
  by (simp add: two_batch_eval one_shot_s2_def)

lemma one_shot_batches2:
  "epoch_batches one_shot two_batch_params (Suc (Suc 0)) one_shot_s2
     = Break User_Escape one_shot_x2"
  by (simp add: two_batch_eval one_shot_s2_def one_shot_x2_def)

lemma one_shot_epoch2:
  "completed (rbm_epoch one_shot two_batch_params (Suc (Suc 0)) one_shot_s2) \<and>
   most_recent_correct_error (final (rbm_epoch one_shot two_batch_params (Suc (Suc 0)) one_shot_s2))
     = Some 2"
  by (simp add: rbm_epoch_def epoch_measure_def one_shot_batches2)
     (simp add: two_batch_eval one_shot_s2_def one_shot_x2_def)

subsection \<open>The bounds of the learning rate\<close>

text \<open>
  Claim C3, as amended. Whatever the engine reports for the gradient lengths and dot
  product, every batch other than the very first batch of the first epoch leaves the
  learning rate within \<open>[0.001, 1]\<close>. The very first batch of the first epoch makes no
  adaptation and no clamp: it leaves the learning rate that the caller passed. The end
  of an epoch (summary, convergence tests, caps) keeps a learning rate within those
  bounds within them.
\<close>

theorem learning_rate_bounds:
  "(rbm_batch E P i_epoch ibatch s = Normal s' \<and> (i_epoch \<noteq> 0 \<or> ibatch \<noteq> 0) \<longrightarrow>
      1 / 1000 \<le> learning_rate s' \<and> learning_rate s' \<le> 1) \<and>
   (rbm_batch E P 0 0 s0 = Normal s0' \<longrightarrow> learning_rate s0' = learning_rate s0) \<and>
   (1 / 1000 \<le> learning_rate t \<and> learning_rate t \<le> 1 \<longrightarrow>
      1 / 1000 \<le> learning_rate (final (seq (epoch_summary E P n t) (convergence_tests P n))) \<and>
      learning_rate (final (seq (epoch_summary E P n t) (convergence_tests P n))) \<le> 1)"
proof (intro conjI impI)
  assume "rbm_batch E P i_epoch ibatch s = Normal s' \<and> (i_epoch \<noteq> 0 \<or> ibatch \<noteq> 0)"
  then show "1 / 1000 \<le> learning_rate s'" "learning_rate s' \<le> 1"
    using rbm_batch_range by blast+
next
  assume "rbm_batch E P 0 0 s0 = Normal s0'"
  then show "learning_rate s0' = learning_rate s0" by (rule rbm_batch_first)
next
  assume a: "1 / 1000 \<le> learning_rate t \<and> learning_rate t \<le> 1"
  have r: "learning_rate (final (epoch_summary E P n t)) = learning_rate t"
    using epoch_summary_rate[of E P n t] by (simp add: rate_part_def)
  have "1 / 1000 \<le> learning_rate (final (seq (epoch_summary E P n t) (convergence_tests P n))) \<and>
    learning_rate (final (seq (epoch_summary E P n t) (convergence_tests P n))) \<le> 1"
  proof (cases "epoch_summary E P n t")
    case (Normal u)
    then show ?thesis using a r convergence_tests_range[of u P n] by simp
  next
    case (Break b u)
    then show ?thesis using a r by simp
  next
    case (Return x u)
    then show ?thesis using a r by simp
  qed
  then show "1 / 1000 \<le> learning_rate (final (seq (epoch_summary E P n t) (convergence_tests P n)))"
    "learning_rate (final (seq (epoch_summary E P n t) (convergence_tests P n))) \<le> 1"
    by blast+
qed


theorem learning_rate_bounds_witness:
  "rbm_batch stub stub_params (Suc 0) 0 (stub_s1\<lparr>istart := 0, n_done := 0, error := 0, max_inc := 0\<rparr>)
     = Normal stub_b1 \<and>
   1 / 1000 \<le> learning_rate stub_b1 \<and> learning_rate stub_b1 \<le> 1 \<and>
   rbm_batch stub stub_params 0 0 (stub_s0\<lparr>istart := 0, n_done := 0, error := 0, max_inc := 0\<rparr>)
     = Normal stub_b0 \<and>
   learning_rate stub_b0 = learning_rate stub_s0 \<and>
   learning_rate (final (seq (epoch_summary stub stub_params (Suc 0) stub_b1)
                             (convergence_tests stub_params (Suc 0)))) \<le> 1"
  using learning_rate_bounds[of stub stub_params "Suc 0" 0
          "stub_s1\<lparr>istart := 0, n_done := 0, error := 0, max_inc := 0\<rparr>" stub_b1
          "stub_s0\<lparr>istart := 0, n_done := 0, error := 0, max_inc := 0\<rparr>" stub_b0 stub_b1 "Suc 0"]
    stub_batch0 stub_batch1
  by (simp add: stub_b1_def stub_s0_def)

text \<open>
  Claim C3 as stated fails on the first batch of the first epoch: on the stub, with a
  caller's learning rate of \<open>0.0005\<close>, the learning rate after that batch is still
  \<open>0.0005\<close>, below \<open>0.001\<close>.
\<close>

theorem learning_rate_first_batch_counterexample:
  "rbm_setup stub stub_params stub_vars = Normal stub_s0 \<and>
   epoch_batches stub stub_params 0 stub_s0 = Normal stub_b0 \<and>
   learning_rate stub_b0 = 1 / 2000 \<and> \<not> (1 / 1000 \<le> learning_rate stub_b0)"
  by (intro conjI; (rule stub_setup | rule stub_batches0 |
        simp add: stub_b0_def stub_s0_def stub_vars_def))

subsection \<open>Annealing\<close>

text \<open>
  Claim C4, as amended. An epoch that goes on to the next one has updated the momentum
  to \<open>0.99 * momentum + 0.01 * end_momentum\<close> (from the momentum that the batches
  left) and the chain length to
  \<open>(1 - n_chain_rate) * chain_length + n_chain_rate * n_chain_end\<close>, each operation
  rounded to \<open>double\<close>. An epoch that the
  convergence or the stall test ends leaves both as they were: the \<open>break\<close> comes
  before the update.
\<close>

theorem anneal_unless_break:
  "(rbm_epoch E P i_epoch s = Normal s' \<longrightarrow>
      (\<exists>st. epoch_measure E P i_epoch s = Normal st \<and>
            momentum s' = 0.99 * momentum st + 0.01 * end_momentum P) \<and>
      chain_length s' = fl (fl (fl (1 - n_chain_rate P) * chain_length s)
                            + fl (n_chain_rate P * real_of_int (n_chain_end P)))) \<and>
   (rbm_epoch E P n t = Break b t' \<and> b \<noteq> User_Escape \<longrightarrow>
      (\<exists>st. epoch_measure E P n t = Normal st \<and> momentum t' = momentum st) \<and>
      chain_length t' = chain_length t)"
proof (intro conjI impI)
  assume a: "rbm_epoch E P i_epoch s = Normal s'"
  then obtain st where st: "epoch_measure E P i_epoch s = Normal st"
    and ct: "convergence_tests P i_epoch st = Normal s'"
    by (auto simp: rbm_epoch_def seq_eq_Normal)
  show "\<exists>st. epoch_measure E P i_epoch s = Normal st \<and>
            momentum s' = 0.99 * momentum st + 0.01 * end_momentum P"
    using st convergence_tests_NormalD(1)[OF ct] by blast
  show "chain_length s' = fl (fl (fl (1 - n_chain_rate P) * chain_length s)
                            + fl (n_chain_rate P * real_of_int (n_chain_end P)))"
    using convergence_tests_NormalD(2)[OF ct] epoch_measure_keeps(1)[of E P i_epoch s] st
    by (simp add: chain_update_def)
next
  assume a: "rbm_epoch E P n t = Break b t' \<and> b \<noteq> User_Escape"
  then have "\<exists>st. epoch_measure E P n t = Normal st \<and> convergence_tests P n st = Break b t'"
    using epoch_measure_Break[of E P n t b t'] by (auto simp: rbm_epoch_def seq_eq_Break)
  then obtain st where st: "epoch_measure E P n t = Normal st"
    and ct: "convergence_tests P n st = Break b t'" by blast
  show "\<exists>st. epoch_measure E P n t = Normal st \<and> momentum t' = momentum st"
    using st convergence_tests_BreakD(1)[OF ct] by blast
  show "chain_length t' = chain_length t"
    using convergence_tests_BreakD(2)[OF ct] epoch_measure_keeps(1)[of E P n t] st by simp
qed


theorem anneal_unless_break_witness:
  "rbm_epoch stub stub_params 0 stub_s0 = Normal stub_s1 \<and>
   chain_length stub_s1 = fl (fl (fl (1 - n_chain_rate stub_params) * chain_length stub_s0)
                            + fl (n_chain_rate stub_params * real_of_int (n_chain_end stub_params))) \<and>
   chain_length stub_s0 = 1 \<and> chain_length stub_s1 = 2 \<and>
   momentum stub_s1 = 0.99 * momentum stub_m0 + 0.01 * end_momentum stub_params \<and>
   rbm_epoch stub stub_params (Suc 0) stub_s1 = Break Stalled (stub_m1\<lparr>n_no_improvement := 1\<rparr>) \<and>
   Stalled \<noteq> User_Escape \<and>
   chain_length (stub_m1\<lparr>n_no_improvement := 1\<rparr>) = chain_length stub_s1"
  using anneal_unless_break[of stub stub_params 0 stub_s0 stub_s1 "Suc 0" stub_s1 Stalled
          "stub_m1\<lparr>n_no_improvement := 1\<rparr>"]
    stub_epoch0 stub_epoch1 stub_measure0
  by (simp add: stub_s1_def stub_m0_def stub_b0_def stub_s0_def stub_vars_def)

text \<open>
  Claim C4 as stated fails for the epoch that triggers the stall termination: on the
  stub, epoch 1 ends by the stall test with the momentum and the chain length that its
  batches left.
\<close>

theorem anneal_skipped_on_stall_counterexample:
  "rbm_epochs stub stub_params (Suc 0) stub_vars = Normal stub_s1 \<and>
   epoch_measure stub stub_params (Suc 0) stub_s1 = Normal stub_m1 \<and>
   rbm_epoch stub stub_params (Suc 0) stub_s1 = Break Stalled (stub_m1\<lparr>n_no_improvement := 1\<rparr>) \<and>
   momentum (stub_m1\<lparr>n_no_improvement := 1\<rparr>) = momentum stub_m1 \<and>
   momentum stub_m1 \<noteq> 0.99 * momentum stub_m1 + 0.01 * end_momentum stub_params \<and>
   chain_length (stub_m1\<lparr>n_no_improvement := 1\<rparr>) = chain_length stub_s1 \<and>
   chain_length stub_s1 \<noteq> fl (fl (fl (1 - n_chain_rate stub_params) * chain_length stub_s1)
                   + fl (n_chain_rate stub_params * real_of_int (n_chain_end stub_params)))"
  by (intro conjI; (rule stub_epochs1 | rule stub_measure1 | rule stub_epoch1 |
        simp add: stub_m1_def stub_b1_def stub_s1_def stub_m0_def stub_b0_def stub_s0_def
          stub_vars_def fl_eval))


subsection \<open>The ESCape key\<close>





subsection \<open>Stall detection\<close>

text \<open>
  Claim C5. Let \<open>max_no_imp\<close> be non-negative and let \<open>max_epochs\<close> allow epoch
  \<open>max_no_imp + 1\<close>. Let every epoch up to that one, once entered, get to its
  convergence tests (no engine failure, no ESCape) with a ratio \<open>max_inc / max_weight\<close>
  that is not below \<open>convergence_crit\<close>, and let the ratio strictly increase from each of
  these epochs to the next. Then the run enters epoch \<open>max_no_imp + 1\<close> (no earlier
  epoch ends the loop), that epoch leaves the loop by the stall test with the counter
  at \<open>max_no_imp + 1\<close>, and this is how the epoch loop of \<open>rbm_cuda\<close> ends.
\<close>

theorem stall_terminates:
  assumes start: "rbm_setup E P s = Normal s0"
    and imp: "0 \<le> max_no_imp P"
    and epochs: "nat (max_no_imp P) + 1 < max_epochs P"
    and frame: "\<And>e se. e \<le> nat (max_no_imp P) + 1 \<Longrightarrow> rbm_epochs E P e s = Normal se \<Longrightarrow>
                  \<exists>st. epoch_measure E P e se = Normal st \<and> max_weight st \<noteq> 0 \<and>
                       convergence_crit P \<le> max_inc st / max_weight st"
    and incr: "\<And>e se st se' st'. Suc e \<le> nat (max_no_imp P) + 1 \<Longrightarrow>
                  rbm_epochs E P e s = Normal se \<Longrightarrow> epoch_measure E P e se = Normal st \<Longrightarrow>
                  rbm_epochs E P (Suc e) s = Normal se' \<Longrightarrow>
                  epoch_measure E P (Suc e) se' = Normal st' \<Longrightarrow>
                  max_inc st / max_weight st < max_inc st' / max_weight st'"
  shows "\<exists>se sf. rbm_epochs E P (nat (max_no_imp P) + 1) s = Normal se \<and>
           rbm_epoch E P (nat (max_no_imp P) + 1) se = Break Stalled sf \<and>
           n_no_improvement sf = max_no_imp P + 1 \<and>
           rbm_epochs E P (max_epochs P) s = Break Stalled sf"
proof -
  let ?K = "nat (max_no_imp P) + 1"
  have bound: "int ?K \<le> max_no_imp P + 1" using imp by simp
  have "\<exists>se st. rbm_epochs E P ?K s = Normal se \<and> epoch_measure E P ?K se = Normal st \<and>
           (0 < ?K \<longrightarrow> n_no_improvement se = int ?K - 1 \<and>
                       best_crit se < max_inc st / max_weight st)"
  proof (rule stall_counter[of E P s s0 "nat (max_no_imp P) + 1" "nat (max_no_imp P) + 1"])
    show "rbm_setup E P s = Normal s0" by (rule start)
    show "\<exists>st. epoch_measure E P e se = Normal st \<and> max_weight st \<noteq> 0 \<and>
                       convergence_crit P \<le> max_inc st / max_weight st"
      if "e \<le> ?K" "rbm_epochs E P e s = Normal se" for e se
      using frame[OF that] .
    show "max_inc st / max_weight st < max_inc st' / max_weight st'"
      if "Suc e \<le> ?K" "rbm_epochs E P e s = Normal se" "epoch_measure E P e se = Normal st"
        "rbm_epochs E P (Suc e) s = Normal se'" "epoch_measure E P (Suc e) se' = Normal st'"
      for e se st se' st'
      using incr[OF that] .
    show "int ?K \<le> max_no_imp P + 1" by (rule bound)
    show "?K \<le> ?K" by simp
  qed
  then obtain se st where se: "rbm_epochs E P ?K s = Normal se"
    and st: "epoch_measure E P ?K se = Normal st"
    and n: "n_no_improvement se = int ?K - 1"
    and b: "best_crit se < max_inc st / max_weight st"
    by auto
  from frame[OF _ se] st have crit: "convergence_crit P \<le> max_inc st / max_weight st"
    by auto
  have keep: "n_no_improvement st = n_no_improvement se" "best_crit st = best_crit se"
    using epoch_measure_keeps(2,3)[of E P ?K se] st by simp_all
  let ?sf = "st\<lparr>n_no_improvement := n_no_improvement st + 1\<rparr>"
  have "n_no_improvement st + 1 > max_no_imp P" using n keep(1) imp by simp
  then have ep: "rbm_epoch E P ?K se = Break Stalled ?sf"
    using st crit b keep
    by (simp add: rbm_epoch_def convergence_tests_no_improvement)
  have "rbm_epochs E P (Suc ?K) s = Break Stalled ?sf"
    using se ep by (simp add: rbm_epochs_Suc)
  from rbm_epochs_Break_mono[OF this, of "max_epochs P"] epochs
  have run: "rbm_epochs E P (max_epochs P) s = Break Stalled ?sf" by simp
  have "n_no_improvement ?sf = max_no_imp P + 1" using n keep(1) imp by simp
  with se ep run show ?thesis by blast
qed

theorem stall_terminates_witness:
  "rbm_setup stub stub_params stub_vars = Normal stub_s0 \<and>
   0 \<le> max_no_imp stub_params \<and> nat (max_no_imp stub_params) + 1 < max_epochs stub_params \<and>
   rbm_epochs stub stub_params (Suc 0) stub_vars = Normal stub_s1 \<and>
   rbm_epoch stub stub_params (Suc 0) stub_s1 = Break Stalled (stub_m1\<lparr>n_no_improvement := 1\<rparr>) \<and>
   (\<exists>se sf. rbm_epochs stub stub_params (nat (max_no_imp stub_params) + 1) stub_vars = Normal se \<and>
      rbm_epoch stub stub_params (nat (max_no_imp stub_params) + 1) se = Break Stalled sf \<and>
      n_no_improvement sf = max_no_imp stub_params + 1 \<and>
      rbm_epochs stub stub_params (max_epochs stub_params) stub_vars = Break Stalled sf)"
proof (intro conjI)
  show "\<exists>se sf. rbm_epochs stub stub_params (nat (max_no_imp stub_params) + 1) stub_vars = Normal se \<and>
      rbm_epoch stub stub_params (nat (max_no_imp stub_params) + 1) se = Break Stalled sf \<and>
      n_no_improvement sf = max_no_imp stub_params + 1 \<and>
      rbm_epochs stub stub_params (max_epochs stub_params) stub_vars = Break Stalled sf"
  proof (rule stall_terminates[of stub stub_params stub_vars stub_s0])
    show "rbm_setup stub stub_params stub_vars = Normal stub_s0" by (rule stub_setup)
    show "0 \<le> max_no_imp stub_params" by simp
    show "nat (max_no_imp stub_params) + 1 < max_epochs stub_params" by simp
    show "\<exists>st. epoch_measure stub stub_params e se = Normal st \<and> max_weight st \<noteq> 0 \<and>
              convergence_crit stub_params \<le> max_inc st / max_weight st"
      if "e \<le> nat (max_no_imp stub_params) + 1"
        "rbm_epochs stub stub_params e stub_vars = Normal se" for e se
      using stub_frame[OF that] .
    show "max_inc st / max_weight st < max_inc st' / max_weight st'"
      if "Suc e \<le> nat (max_no_imp stub_params) + 1"
        "rbm_epochs stub stub_params e stub_vars = Normal se"
        "epoch_measure stub stub_params e se = Normal st"
        "rbm_epochs stub stub_params (Suc e) stub_vars = Normal se'"
        "epoch_measure stub stub_params (Suc e) se' = Normal st'" for e se st se' st'
      using stub_incr[OF that] .
  qed
qed (simp_all add: stub_setup stub_epochs1 stub_epoch1)

subsection \<open>The chain length\<close>

text \<open>The update of the chain length in a run that never ends early.\<close>

lemma quiet_fields [simp]:
  "ERROR_INSUFFICIENT_MEMORY quiet = 1"
  "ERROR_CUDA_MEMORY quiet = 2"
  "ERROR_CUDA_ERROR quiet = 3"
  "rbm_cuda_init quiet = rbm_cuda_init stub"
  "rbm_cuda_cleanup quiet = rbm_cuda_cleanup stub"
  "cuda_shuffle_to_device quiet = cuda_shuffle_to_device stub"
  "cuda_params_to_device quiet = cuda_params_to_device stub"
  "cuda_params_from_device quiet = cuda_params_from_device stub"
  "cuda_fetch_vis1 quiet = cuda_fetch_vis1 stub"
  "cuda_vis_to_hid quiet = cuda_vis_to_hid stub"
  "cuda_hid_to_vis_direct quiet = cuda_hid_to_vis_direct stub"
  "cuda_sample_hidden2 quiet = cuda_sample_hidden2 stub"
  "cuda_hid_to_vis quiet = cuda_hid_to_vis stub"
  "cuda_vis2_to_hid2 quiet = cuda_vis2_to_hid2 stub"
  "cuda_recon_error quiet = cuda_recon_error stub"
  "cuda_update_in_bias quiet = cuda_update_in_bias stub"
  "cuda_update_hid_bias quiet = cuda_update_hid_bias stub"
  "cuda_update_weights quiet = cuda_update_weights stub"
  "cuda_transpose quiet = cuda_transpose stub"
  "cuda_max_inc_w quiet = cuda_max_inc_w stub"
  "cuda_len_dot quiet = cuda_len_dot stub"
  "unifrand_fast quiet = unifrand_fast stub"
  "user_pressed_escape quiet = (\<lambda>wld. (0, wld))"
  "escape_key_pressed quiet = (\<lambda>wld. 0)"
  "set_escape_key_pressed quiet = set_escape_key_pressed stub"
  by (simp_all add: quiet_def)

lemma inc_seq [simp]:
  "(\<And>s. 0 \<le> max_inc s \<Longrightarrow> 0 \<le> max_inc (final (f s))) \<Longrightarrow> 0 \<le> max_inc (final m) \<Longrightarrow>
   0 \<le> max_inc (final (seq m f))"
  by (cases m) auto

lemma inc_for_loop [simp]:
  "(\<And>i s. 0 \<le> max_inc s \<Longrightarrow> 0 \<le> max_inc (final (body i s))) \<Longrightarrow> 0 \<le> max_inc s \<Longrightarrow>
   0 \<le> max_inc (final (for_loop body xs s))"
  by (induction xs arbitrary: s) auto

lemma inc_call [simp]: "max_inc (final (call f s)) = max_inc s"
  by (auto simp: call_def split: prod.splits)

lemma inc_advance [simp]: "max_inc (advance s) = max_inc s"
  by (simp add: advance_def split: prod.splits)

lemma inc_pre_fetch [simp]: "max_inc (pre_fetch P s) = max_inc s"
  by (simp add: pre_fetch_def)

lemma inc_cumulate_error [simp]: "max_inc (cumulate_error n s) = max_inc s"
  unfolding cumulate_error_def by (induction n) auto

lemma inc_chain_step [simp]:
  "0 \<le> max_inc s \<Longrightarrow> 0 \<le> max_inc (final (chain_step E P n i s))"
  unfolding chain_step_def Let_def
  by (simp add: final_if split: prod.splits)

lemma inc_batch_update [simp]:
  "0 \<le> max_inc s \<Longrightarrow> 0 \<le> max_inc (final (batch_update E P n i s))"
  unfolding batch_update_def Let_def
  by (simp add: final_if split: prod.splits)

lemma inc_adapt [simp]: "max_inc (adapt d s) = max_inc s"
  by (simp add: adapt_def Let_def)

lemma inc_gradient_step [simp]:
  "max_inc (final (gradient_step E P e b s)) = max_inc s"
  unfolding gradient_step_def Let_def
  by (simp add: final_if split: prod.splits)

lemma inc_rbm_batch [simp]:
  "0 \<le> max_inc s \<Longrightarrow> 0 \<le> max_inc (final (rbm_batch E P e b s))"
  unfolding rbm_batch_def Let_def
  by (simp add: final_if split: prod.splits)

lemma inc_epoch_batches:
  assumes "epoch_batches E P e s = Normal sb"
  shows "0 \<le> max_inc sb"
proof -
  from assms obtain s1 where s1: "epoch_begin E P s = Normal s1"
    and lp: "for_loop (rbm_batch E P e) [0..<n_batches P] s1 = Normal sb"
    by (auto simp: epoch_batches_def seq_eq_Normal)
  from s1 have "max_inc s1 = 0"
    by (auto simp: epoch_begin_def Let_def call_def seq_eq_Normal split: prod.splits if_splits)
  then have "0 \<le> max_inc (final (for_loop (rbm_batch E P e) [0..<n_batches P] s1))"
    by simp
  then show ?thesis by (simp add: lp)
qed

lemma inc_epoch_summary [simp]:
  "max_inc (final (epoch_summary E P e s)) = max_inc s"
  unfolding epoch_summary_def Let_def
  by (simp add: final_if split: prod.splits)

lemma completed_seq [simp]:
  "completed m \<Longrightarrow> (\<And>s. completed (f s)) \<Longrightarrow> completed (seq m f)"
  by (cases m) auto

lemma completed_for_loop [simp]:
  "(\<And>i s. completed (body i s)) \<Longrightarrow> completed (for_loop body xs s)"
  by (induction xs arbitrary: s) auto

lemma quiet_chain_step [simp]: "completed (chain_step quiet P n i s)"
  by (simp add: chain_step_def Let_def call_def)

lemma quiet_batch_update [simp]: "completed (batch_update quiet P n i s)"
  by (simp add: batch_update_def Let_def call_def)

lemma quiet_gradient_step [simp]: "completed (gradient_step quiet P e b s)"
  by (simp add: gradient_step_def Let_def)

lemma quiet_rbm_batch [simp]: "completed (rbm_batch quiet P e b s)"
  by (simp add: rbm_batch_def Let_def epoch_escape_check_def escape_check_def)

lemma quiet_epoch_batches [simp]: "completed (epoch_batches quiet P e s)"
  by (simp add: epoch_batches_def epoch_begin_def Let_def call_def)

lemma quiet_epoch_summary:
  "completed (epoch_summary quiet P e s) \<and> max_weight (final (epoch_summary quiet P e s)) = 1"
  by (simp add: epoch_summary_def Let_def epoch_escape_check_def escape_check_def)

lemma quiet_epoch_measure:
  "\<exists>st. epoch_measure quiet P e s = Normal st \<and> max_weight st = 1 \<and> 0 \<le> max_inc st \<and>
        n_no_improvement st = n_no_improvement s"
proof -
  obtain sb where sb: "epoch_batches quiet P e s = Normal sb"
    using quiet_epoch_batches[of P e s] by (cases "epoch_batches quiet P e s") simp_all
  obtain st where st: "epoch_summary quiet P e sb = Normal st" and mw: "max_weight st = 1"
    using quiet_epoch_summary[of P e sb] by (cases "epoch_summary quiet P e sb") simp_all
  have em: "epoch_measure quiet P e s = Normal st" using sb st by (simp add: epoch_measure_def)
  have "max_inc st = max_inc sb" using inc_epoch_summary[of quiet P e sb] st by simp
  then show ?thesis
    using em mw inc_epoch_batches[OF sb] epoch_measure_keeps(2)[of quiet P e s]
    by simp
qed

lemma quiet_epoch:
  assumes "convergence_crit P = 0" "n_no_improvement s < max_no_imp P" "0 \<le> n_no_improvement s"
  shows "\<exists>s'. rbm_epoch quiet P e s = Normal s' \<and> 0 \<le> n_no_improvement s' \<and>
              n_no_improvement s' \<le> n_no_improvement s + 1"
proof -
  from quiet_epoch_measure[of P e s] obtain st where
    st: "epoch_measure quiet P e s = Normal st" and mw: "max_weight st = 1"
    and mi: "0 \<le> max_inc st" and nn: "n_no_improvement st = n_no_improvement s" by blast
  show ?thesis
    using assms mw mi nn
    by (simp add: rbm_epoch_def st convergence_tests_def Let_def anneal_fields)
qed

lemma quiet_run:
  assumes "convergence_crit P = 0" "int n \<le> max_no_imp P"
  shows "\<exists>sn. rbm_epochs quiet P n s = Normal sn \<and> 0 \<le> n_no_improvement sn \<and>
              n_no_improvement sn \<le> int n"
  using assms(2)
proof (induction n)
  case 0
  show ?case by (simp add: rbm_epochs_0 rbm_setup_def Let_def)
next
  case (Suc n)
  then obtain sn where sn: "rbm_epochs quiet P n s = Normal sn"
    and n0: "0 \<le> n_no_improvement sn" and nn: "n_no_improvement sn \<le> int n" by auto
  have "n_no_improvement sn < max_no_imp P" using nn Suc.prems by simp
  from quiet_epoch[OF assms(1) this n0, of n] obtain s' where
    "rbm_epoch quiet P n sn = Normal s'" "0 \<le> n_no_improvement s'"
    "n_no_improvement s' \<le> n_no_improvement sn + 1" by blast
  then show ?case using sn nn by (simp add: rbm_epochs_Suc)
qed


text \<open>The literal \<open>0.2\<close> and the chain lengths it gives.\<close>

lemma drift_rate: "fl (2 / 10) = 3602879701896397 / 18014398509481984"
  by (simp add: fl_binade[where e = "- 3"] round_even_def)

lemma drift_update:
  "chain_update (3602879701896397 / 18014398509481984) 3 c
   = fl (fl (3602879701896397 / 4503599627370496 * c) + 1351079888211149 / 2251799813685248)"
  by (simp add: chain_update_def fl_eval)

lemma drift_159:
  "(chain_update (3602879701896397 / 18014398509481984) 3 ^^ 159) 1
   = 6755399441055745 / 2251799813685248"
  by (simp add: drift_update eval_nat_numeral fl_eval)

lemma drift_160:
  "(chain_update (3602879701896397 / 18014398509481984) 3 ^^ 160) 1
   = 6755399441055745 / 2251799813685248"
proof -
  have "(160::nat) = Suc 159" by simp
  then have "(chain_update (3602879701896397 / 18014398509481984) 3 ^^ 160) 1
      = chain_update (3602879701896397 / 18014398509481984) 3
          ((chain_update (3602879701896397 / 18014398509481984) 3 ^^ 159) 1)"
    by (simp only: funpow.simps o_apply)
  also have "\<dots> = 6755399441055745 / 2251799813685248"
    unfolding drift_159 by (simp add: drift_update fl_eval)
  finally show ?thesis .
qed

lemma drift_params_fields [simp]:
  "n_chain_rate drift_params = 3602879701896397 / 18014398509481984"
  "n_chain_end drift_params = 3" "n_chain_start drift_params = 1"
  "convergence_crit drift_params = 0" "max_no_imp drift_params = 200"
  by (simp_all add: drift_params_def)

lemma chain_iter_mono:
  assumes "r \<le> 1" "c \<le> chain_update r e c" "m \<le> n"
  shows "(chain_update r e ^^ m) c \<le> (chain_update r e ^^ n) c"
proof -
  have step: "(chain_update r e ^^ i) c \<le> (chain_update r e ^^ Suc i) c" for i
  proof (induction i)
    case 0
    show ?case using assms(2) by simp
  next
    case (Suc i)
    show ?case using chain_update_mono[OF assms(1) Suc] by simp
  qed
  show ?thesis using assms(3)
  proof (induction n)
    case 0
    then show ?case by simp
  next
    case (Suc n)
    show ?case
    proof (cases "m = Suc n")
      case True
      then show ?thesis by simp
    next
      case False
      with Suc.prems have "m \<le> n" by simp
      from Suc.IH[OF this] step[of n] show ?thesis by linarith
    qed
  qed
qed

lemma chain_iter_antimono:
  assumes "r \<le> 1" "chain_update r e c \<le> c" "m \<le> n"
  shows "(chain_update r e ^^ n) c \<le> (chain_update r e ^^ m) c"
proof -
  have step: "(chain_update r e ^^ Suc i) c \<le> (chain_update r e ^^ i) c" for i
  proof (induction i)
    case 0
    show ?case using assms(2) by simp
  next
    case (Suc i)
    show ?case using chain_update_mono[OF assms(1) Suc] by simp
  qed
  show ?thesis using assms(3)
  proof (induction n)
    case 0
    then show ?case by simp
  next
    case (Suc n)
    show ?case
    proof (cases "m = Suc n")
      case True
      then show ?thesis by simp
    next
      case False
      with Suc.prems have "m \<le> n" by simp
      from Suc.IH[OF this] step[of n] show ?thesis by linarith
    qed
  qed
qed

lemma long_epochs0: "rbm_epochs stub long_params 0 stub_vars = Normal stub_s0"
  by (simp add: rbm_epochs_0 long_setup)

lemma long_epochs1: "rbm_epochs stub long_params (Suc 0) stub_vars = Normal stub_s1"
  by (simp add: rbm_epochs_Suc long_epochs0 rbm_epoch_def long_measure0 long_tests0)

lemma down_params_fields [simp]:
  "n_chain_rate down_params = 1 / 2"
  "n_chain_end down_params = 1" "n_chain_start down_params = 3"
  "convergence_crit down_params = 0" "max_no_imp down_params = 200"
  by (simp_all add: down_params_def drift_params_def)

lemma chain_update_down:
  "chain_update (1 / 2) 1 3 = 2" "chain_update (1 / 2) 1 2 = 3 / 2"
  by (simp_all add: chain_update_def fl_eval)





subsection \<open>Engine failures in the initialiser\<close>

lemma bad_recon_fields [simp]:
  "ERROR_INSUFFICIENT_MEMORY bad_recon = 1"
  "ERROR_CUDA_MEMORY bad_recon = 2"
  "ERROR_CUDA_ERROR bad_recon = 3"
  "rbm_cuda_init bad_recon = rbm_cuda_init stub"
  "rbm_cuda_cleanup bad_recon = rbm_cuda_cleanup stub"
  "cuda_shuffle_to_device bad_recon = cuda_shuffle_to_device stub"
  "cuda_params_to_device bad_recon = cuda_params_to_device stub"
  "cuda_params_from_device bad_recon = cuda_params_from_device stub"
  "cuda_fetch_vis1 bad_recon = cuda_fetch_vis1 stub"
  "cuda_vis_to_hid bad_recon = cuda_vis_to_hid stub"
  "cuda_hid_to_vis_direct bad_recon = cuda_hid_to_vis_direct stub"
  "cuda_sample_hidden2 bad_recon = cuda_sample_hidden2 stub"
  "cuda_hid_to_vis bad_recon = cuda_hid_to_vis stub"
  "cuda_vis2_to_hid2 bad_recon = cuda_vis2_to_hid2 stub"
  "cuda_recon_error bad_recon = (\<lambda>_ _ ev wld. (1, ev, wld))"
  "cuda_update_in_bias bad_recon = cuda_update_in_bias stub"
  "cuda_update_hid_bias bad_recon = cuda_update_hid_bias stub"
  "cuda_update_weights bad_recon = cuda_update_weights stub"
  "cuda_transpose bad_recon = cuda_transpose stub"
  "cuda_max_inc_w bad_recon = cuda_max_inc_w stub"
  "cuda_len_dot bad_recon = cuda_len_dot stub"
  "unifrand_fast bad_recon = unifrand_fast stub"
  "user_pressed_escape bad_recon = user_pressed_escape stub"
  "escape_key_pressed bad_recon = escape_key_pressed stub"
  "set_escape_key_pressed bad_recon = set_escape_key_pressed stub"
  by (simp_all add: bad_recon_def)

lemmas wt_defs = rbm_cuda_wt_init_def wt_setup_def wt_finish_def wt_trial_def wt_evaluate_def
  wt_batch_def
  trial_weights_def gen_hid_weights_def center_visible_def save_best_def copy_best_def
  find_mean_wt_init_def

text \<open>
  Claim C2. \<open>rbm_cuda_wt_init\<close> stores the status of \<open>cuda_recon_error\<close> in \<open>ret_val\<close>
  and does not test it, where every other call of the routine, and the same call in
  \<open>rbm_cuda\<close>, is followed by \<open>if (ret_val) return -1.0\<close>. On an engine whose
  \<open>cuda_recon_error\<close> fails, \<open>rbm_cuda_wt_init\<close> goes on with the error vector as it is
  and returns an error of 0 for the run, not \<open>-1\<close>; \<open>rbm_cuda\<close> returns \<open>-1\<close> on the
  same engine.
\<close>

theorem recon_failure_unreported:
  "fst (cuda_recon_error bad_recon (n_inputs stub_params) 1 (err_vec stub_vars) (world stub_vars)) = 1 \<and>
   fst (rbm_cuda_wt_init bad_recon stub_params stub_vars) = 0 \<and>
   fst (rbm_cuda bad_recon stub_params stub_vars) = Some (- 1)"
  by (simp add: wt_defs stub_eval numeral_2_eq_2 numeral_3_eq_3 upt_conv_Cons)


subsection \<open>The seed of the fetch when the visible layer is not sampled\<close>

lemma greedy_epochs1_k:
  "k (final (rbm_epochs stub greedy_params (Suc 0) two_batch_vars)) = Some 8954"
  by (simp add: two_batch_eval greedy_params_def)

lemma greedy_seeds:
  "seeds (world (snd (rbm_cuda stub greedy_params two_batch_vars)))
   = [Some 1, Some 2210, Some 0, Some 15709]"
  by (simp add: two_batch_eval greedy_params_def)

lemma shuffle_small: "i < 2 \<Longrightarrow> shuffle E i s = s"
  by (subst shuffle.simps) simp

lemma shuffle_k:
  "2 \<le> i \<Longrightarrow> k (shuffle E i s) \<noteq> None"
proof (induction E i s rule: shuffle.induct)
  case (1 E i s)
  obtain u wld where u: "unifrand_fast E (world s) = (u, wld)"
    by (cases "unifrand_fast E (world s)")
  show ?case
  proof (cases "i = 2")
    case True
    then show ?thesis
      by (subst shuffle.simps) (simp add: u Let_def shuffle_small)
  next
    case False
    with 1(2) have "2 \<le> i - 1" by simp
    then show ?thesis
      using 1(1)[OF _ u[symmetric] refl refl refl refl refl refl] 1(2)
      by (subst shuffle.simps) (simp add: u Let_def)
  qed
qed

lemma epoch_begin_k:
  "epoch_begin E P s = Normal s1 \<Longrightarrow> k s1 = k (shuffle E (nc P) s)"
  by (auto simp: epoch_begin_def Let_def call_def seq_eq_Normal split: prod.splits if_splits)

lemma stale_advance [simp]: "stale (advance s)"
  unfolding stale_def by (intro exI[of _ "randnum s"]) (simp add: advance_def split: prod.splits)

lemma stale_stream_part: "stream_part s' = stream_part s \<Longrightarrow> stale s' = stale s"
  by (simp add: stale_def stream_part_def)

lemma batch_update_stale:
  assumes "batch_update E P n i s = Normal s'"
  shows "stale s'"
proof -
  from assms obtain s4 where
    tl: "seq (call (cuda_update_hid_bias E n (nhid P) (learning_rate (advance s4))
                   (momentum (advance s4)) (randnum (advance s4)) (sparsity_penalty P)
                   (sparsity_target P)) (advance s4)) (\<lambda>s.
         seq (call (cuda_update_weights E n (n_inputs P) (nhid P) (learning_rate s)
                      (momentum s) (weight_pen P) (sparsity_penalty P) (sparsity_target P)) s) (\<lambda>s.
         seq (call (cuda_transpose E (n_inputs P) (nhid P)) s) (\<lambda>s.
         let s = cumulate_error (n_inputs P) s
         in case cuda_max_inc_w E (n_inputs P * nhid P) 1 (world s) of
              (ret_val, dtemp, wld) \<Rightarrow>
                if ret_val \<noteq> 0 then Return (- 1) (s\<lparr>world := wld\<rparr>)
                else
                  let s = s\<lparr>world := wld\<rparr>
                  in Normal (if dtemp > max_inc s then s\<lparr>max_inc := dtemp\<rparr> else s)))) = Normal s'"
    unfolding batch_update_def Let_def seq_eq_Normal by blast
  have "stream_part (final (seq (call (cuda_update_hid_bias E n (nhid P) (learning_rate (advance s4))
                   (momentum (advance s4)) (randnum (advance s4)) (sparsity_penalty P)
                   (sparsity_target P)) (advance s4)) (\<lambda>s.
         seq (call (cuda_update_weights E n (n_inputs P) (nhid P) (learning_rate s)
                      (momentum s) (weight_pen P) (sparsity_penalty P) (sparsity_target P)) s) (\<lambda>s.
         seq (call (cuda_transpose E (n_inputs P) (nhid P)) s) (\<lambda>s.
         let s = cumulate_error (n_inputs P) s
         in case cuda_max_inc_w E (n_inputs P * nhid P) 1 (world s) of
              (ret_val, dtemp, wld) \<Rightarrow>
                if ret_val \<noteq> 0 then Return (- 1) (s\<lparr>world := wld\<rparr>)
                else
                  let s = s\<lparr>world := wld\<rparr>
                  in Normal (if dtemp > max_inc s then s\<lparr>max_inc := dtemp\<rparr> else s)))))) 
        = stream_part (advance s4)"
    by (simp add: Let_def final_if split: prod.splits)
  then have "stream_part s' = stream_part (advance s4)" by (simp only: tl final.simps)
  from stale_stream_part[OF this] show ?thesis by simp
qed

lemma rbm_batch_stale:
  assumes "rbm_batch E P e b s = Normal s'"
  shows "stale s'"
proof -
  from rbm_batch_NormalD[OF assms] obtain s1 s2 wld where
    1: "batch_update E P (batch_size (nc P) (n_batches P) (n_done s) b)
          (istart s + batch_size (nc P) (n_batches P) (n_done s) b) s = Normal s1"
    and 2: "gradient_step E P e b (s1\<lparr>world := wld\<rparr>) = Normal s2"
    and 3: "s' = s2\<lparr>n_done := n_done s2 + batch_size (nc P) (n_batches P) (n_done s) b,
                   istart := istart s + batch_size (nc P) (n_batches P) (n_done s) b\<rparr>"
    by blast
  have "stream_part s2 = stream_part (s1\<lparr>world := wld\<rparr>)"
    using gradient_step_parts(2)[of E P e b "s1\<lparr>world := wld\<rparr>"] 2 by simp
  then have "stream_part s' = stream_part s1" by (simp add: 3)
  from stale_stream_part[OF this] batch_update_stale[OF 1] show ?thesis by simp
qed

lemma greedy_begin:
  "completed (epoch_begin stub greedy_params two_batch_vars) \<and>
   k (final (epoch_begin stub greedy_params two_batch_vars)) = Some 0"
  by (simp add: two_batch_eval greedy_params_def)

lemma greedy_batch:
  "completed (rbm_batch stub greedy_params 0 0 two_batch_vars) \<and>
   k (final (rbm_batch stub greedy_params 0 0 two_batch_vars)) = Some 2210 \<and>
   randnum (final (rbm_batch stub greedy_params 0 0 two_batch_vars)) = 1622650073"
  by (simp add: two_batch_eval greedy_params_def)

lemma completedD: "completed m \<Longrightarrow> m = Normal (final m)"
  by (cases m) simp_all





end
